theory Spec2Isabelle
  imports Complex_Main "HOL-Library.Word"
begin

section \<open>Binary64 arithmetic\<close>

text \<open>
  The values of a C++ \<^verbatim>\<open>double\<close>: a finite value, carried as the real number it denotes,
  the two infinities and NaN. The sign of a zero is not represented: the two zeros compare
  equal, and the sign could only change another value in a division by zero, whereas the
  program divides by \<^verbatim>\<open>M_SQRT2\<close> alone.
\<close>

datatype double = Fin real | PInf | NInf | NaN

text \<open>
  Rounding of a real result to binary64, to nearest with ties to even: 53 significant
  bits, exponents down to \<open>-1022\<close>, below which the spacing stays \<open>2 powr - 1074\<close>
  (subnormal numbers). \<open>eps\<close> is the unit roundoff and \<open>eta\<close> half the smallest spacing.
  A result at or beyond \<open>overflow_at\<close>, half a spacing above the largest finite value,
  becomes an infinity.
\<close>

definition eps :: real where
  "eps = 1 / 2 ^ 53"

definition eta :: real where
  "eta = 1 / 2 ^ 1075"

definition overflow_at :: real where
  "overflow_at = 2 ^ 1024 - 2 ^ 970"

definition round_even :: "real \<Rightarrow> int" where
  "round_even y =
     (if y - of_int \<lfloor>y\<rfloor> < 1 / 2 then \<lfloor>y\<rfloor>
      else if 1 / 2 < y - of_int \<lfloor>y\<rfloor> then \<lfloor>y\<rfloor> + 1
      else if even \<lfloor>y\<rfloor> then \<lfloor>y\<rfloor> else \<lfloor>y\<rfloor> + 1)"

definition expo :: "real \<Rightarrow> int" where
  "expo x = (if x = 0 then - 1022 else max \<lfloor>log 2 \<bar>x\<bar>\<rfloor> (- 1022))"

definition ulp :: "real \<Rightarrow> real" where
  "ulp x = 2 powr (of_int (expo x) - 52)"

definition rnd :: "real \<Rightarrow> real" where
  "rnd x = ulp x * of_int (round_even (x / ulp x))"

definition to_double :: "real \<Rightarrow> double" where
  "to_double x =
     (if overflow_at \<le> x then PInf else if x \<le> - overflow_at then NInf else Fin (rnd x))"

text \<open>
  The operations the program uses. Each is the exact result rounded once, as the source's
  expressions are evaluated operation by operation; \<open>a - b\<close> is \<open>a + (- b)\<close>, and negation
  is exact.
\<close>

fun dneg :: "double \<Rightarrow> double" where
  "dneg (Fin x) = Fin (- x)"
| "dneg PInf = NInf"
| "dneg NInf = PInf"
| "dneg NaN = NaN"

fun dadd :: "double \<Rightarrow> double \<Rightarrow> double" where
  "dadd (Fin x) (Fin y) = to_double (x + y)"
| "dadd NaN b = NaN"
| "dadd a NaN = NaN"
| "dadd PInf NInf = NaN"
| "dadd NInf PInf = NaN"
| "dadd PInf b = PInf"
| "dadd a PInf = PInf"
| "dadd NInf b = NInf"
| "dadd a NInf = NInf"

definition dsub :: "double \<Rightarrow> double \<Rightarrow> double" where
  "dsub a b = dadd a (dneg b)"

fun dmul :: "double \<Rightarrow> double \<Rightarrow> double" where
  "dmul (Fin x) (Fin y) = to_double (x * y)"
| "dmul NaN b = NaN"
| "dmul a NaN = NaN"
| "dmul (Fin x) PInf = (if x = 0 then NaN else if 0 < x then PInf else NInf)"
| "dmul (Fin x) NInf = (if x = 0 then NaN else if 0 < x then NInf else PInf)"
| "dmul PInf (Fin y) = (if y = 0 then NaN else if 0 < y then PInf else NInf)"
| "dmul NInf (Fin y) = (if y = 0 then NaN else if 0 < y then NInf else PInf)"
| "dmul PInf PInf = PInf"
| "dmul PInf NInf = NInf"
| "dmul NInf PInf = NInf"
| "dmul NInf NInf = PInf"

fun ddiv :: "double \<Rightarrow> double \<Rightarrow> double" where
  "ddiv (Fin x) (Fin y) =
     (if y = 0 then (if x = 0 then NaN else if 0 < x then PInf else NInf)
      else to_double (x / y))"
| "ddiv NaN b = NaN"
| "ddiv a NaN = NaN"
| "ddiv (Fin x) PInf = Fin 0"
| "ddiv (Fin x) NInf = Fin 0"
| "ddiv PInf (Fin y) = (if 0 \<le> y then PInf else NInf)"
| "ddiv NInf (Fin y) = (if 0 \<le> y then NInf else PInf)"
| "ddiv PInf PInf = NaN"
| "ddiv PInf NInf = NaN"
| "ddiv NInf PInf = NaN"
| "ddiv NInf NInf = NaN"

text \<open>
  \<^verbatim>\<open>M_SQRT2\<close> of \<^verbatim>\<open><cmath>\<close>: the binary64 number next to the square root of 2, with the
  bit pattern \<^verbatim>\<open>0x3FF6A09E667F3BCD\<close>.
\<close>

definition sqrt2_64 :: real where
  "sqrt2_64 = 6369051672525773 / 4503599627370496"

definition M_SQRT2 :: double where
  "M_SQRT2 = Fin sqrt2_64"

section \<open>The shared record and the store of segments\<close>

text \<open>
  \<^verbatim>\<open>struct QubitState\<close> of \<^verbatim>\<open>src/qubit.cpp\<close>. The four \<^verbatim>\<open>double\<close> components are
  binary64 values, the \<^verbatim>\<open>uint8_t\<close>, \<^verbatim>\<open>uint32_t\<close> and \<^verbatim>\<open>uint64_t\<close> fields machine words.
  \<^verbatim>\<open>char links[4][64]\<close> is a list of four slots of 64 bytes each.
\<close>

record QubitState =
  alpha_real :: double
  alpha_imag :: double
  beta_real :: double
  beta_imag :: double
  measured :: "8 word"
  links :: "string list"
  link_count :: "32 word"
  task_id :: "32 word"
  created_at :: "64 word"
  decohere_timeout_ms :: "64 word"

text \<open>A shared-memory segment is identified by a number; several \<^verbatim>\<open>Qubit\<close> objects
  may map the same segment.\<close>

type_synonym seg = nat

text \<open>
  The members of \<^verbatim>\<open>class Qubit\<close> that the operations read: \<^verbatim>\<open>shm_name\<close>, \<^verbatim>\<open>task_id\<close>
  (here \<open>owner_task\<close>, since the record field of the same name is taken),
  \<^verbatim>\<open>decohere_timeout\<close> and the pointer \<^verbatim>\<open>state\<close> into the mapped segment. The mutex, the
  random generator and the thread handle carry no data of the record: the generator's
  draw and the clock's reading are arguments of the operations that use them.
\<close>

record Qubit =
  shm_name :: string
  owner_task :: "32 word"
  decohere_timeout :: "64 word"
  state :: seg

text \<open>
  The operating system's side: the namespace of \<^verbatim>\<open>shm_open\<close>, the contents of every
  segment, the next unused segment, and the two ways in which opening a peer can fail
  apart from a missing name (\<^verbatim>\<open>shm_open\<close> returning a negative descriptor, \<^verbatim>\<open>mmap\<close>
  returning \<^verbatim>\<open>MAP_FAILED\<close>).
\<close>

record world =
  names :: "string \<rightharpoonup> seg"
  heap :: "seg \<Rightarrow> QubitState"
  next_seg :: seg
  open_denied :: "string \<Rightarrow> bool"
  mmap_fails :: "seg \<Rightarrow> bool"

definition NUL :: char where
  "NUL = CHR 0x00"

text \<open>The bytes of a C string: everything before the first NUL.\<close>

definition c_str :: "string \<Rightarrow> string" where
  "c_str s = takeWhile (\<lambda>c. c \<noteq> NUL) s"

text \<open>\<^verbatim>\<open>memset(state, 0, sizeof(QubitState))\<close>, also the contents of a segment that
  \<^verbatim>\<open>ftruncate\<close> has just grown.\<close>

definition zero_state :: QubitState where
  "zero_state =
     \<lparr>alpha_real = Fin 0, alpha_imag = Fin 0, beta_real = Fin 0, beta_imag = Fin 0,
      measured = 0,
      links = replicate 4 (replicate 64 NUL), link_count = 0, task_id = 0,
      created_at = 0, decohere_timeout_ms = 0\<rparr>"

text \<open>A write through the pointer \<^verbatim>\<open>state\<close>.\<close>

definition on_state :: "Qubit \<Rightarrow> (QubitState \<Rightarrow> QubitState) \<Rightarrow> world \<Rightarrow> world" where
  "on_state q f w = w\<lparr>heap := (heap w)(state q := f (heap w (state q)))\<rparr>"

section \<open>Private helpers of the class\<close>

definition updateTimestamp :: "Qubit \<Rightarrow> 64 word \<Rightarrow> QubitState \<Rightarrow> QubitState" where
  "updateTimestamp q now s = s\<lparr>created_at := now, decohere_timeout_ms := decohere_timeout q\<rparr>"

text \<open>\<^verbatim>\<open>resetLinks\<close> clears the count and the first byte of each of the four slots.\<close>

definition resetLinks :: "QubitState \<Rightarrow> QubitState" where
  "resetLinks s =
     (fold (\<lambda>i t. t\<lparr>links := (links t)[i := (links t ! i)[0 := NUL]]\<rparr>) [0..<4]
        (s\<lparr>link_count := 0\<rparr>))"

text \<open>\<^verbatim>\<open>static double norm(double r, double i)\<close>.\<close>

definition norm_q :: "double \<Rightarrow> double \<Rightarrow> double" where
  "norm_q r i = dadd (dmul r r) (dmul i i)"

text \<open>
  \<^verbatim>\<open>std::bernoulli_distribution dist(p); dist(rng)\<close>: the library draws a uniform
  variate \<open>u\<close> of the unit interval from the generator, itself a binary64 value of at
  least 0 and below 1, and answers whether \<open>u\<close> is below \<open>p\<close> in the comparison of
  doubles. The variate is an argument, so that one call of an operation is a function
  of it. A parameter outside the unit interval is outside the library's contract; the
  comparison is then what the library still computes.
\<close>

definition bernoulli :: "double \<Rightarrow> real \<Rightarrow> bool" where
  "bernoulli p u =
     (case p of Fin x \<Rightarrow> u < x | PInf \<Rightarrow> True | NInf \<Rightarrow> False | NaN \<Rightarrow> False)"

text \<open>\<^verbatim>\<open>shm_open(peer, O_RDWR, 0)\<close> and the \<^verbatim>\<open>mmap\<close> that follows it.\<close>

definition shm_open :: "world \<Rightarrow> string \<Rightarrow> seg option" where
  "shm_open w nm = (if open_denied w nm then None else names w nm)"

definition mmap_seg :: "world \<Rightarrow> seg \<Rightarrow> seg option" where
  "mmap_seg w fd = (if mmap_fails w fd then None else Some fd)"

text \<open>\<^verbatim>\<open>peerState->measured = result\<close>.\<close>

definition poke_measured :: "seg \<Rightarrow> 8 word \<Rightarrow> world \<Rightarrow> world" where
  "poke_measured p result w = w\<lparr>heap := (heap w)(p := (heap w p)\<lparr>measured := result\<rparr>)\<rparr>"

text \<open>
  \<^verbatim>\<open>state->links[i]\<close> read as a C string. The loops below only reach \<open>i < link_count\<close>;
  a count above 4 would index outside the array, which no operation of the class
  produces, and the model reads an empty name there.
\<close>

definition link_at :: "QubitState \<Rightarrow> nat \<Rightarrow> string" where
  "link_at s i = (if i < length (links s) then c_str (links s ! i) else [])"

text \<open>
  The loop of \<^verbatim>\<open>propagateToLinks\<close>, from index \<open>i\<close>. Count and slot are read from the
  mapped record at every iteration, as the source does.
\<close>

function propagate_from :: "nat \<Rightarrow> 8 word \<Rightarrow> Qubit \<Rightarrow> world \<Rightarrow> world" where
  "propagate_from i result q w =
     (if i < unat (link_count (heap w (state q))) then
        (case shm_open w (link_at (heap w (state q)) i) of
           None \<Rightarrow> propagate_from (Suc i) result q w
         | Some fd \<Rightarrow>
             (case mmap_seg w fd of
                None \<Rightarrow> propagate_from (Suc i) result q w
              | Some p \<Rightarrow> propagate_from (Suc i) result q (poke_measured p result w)))
      else w)"
  by pat_completeness auto
termination
  by (relation "measure (\<lambda>(i, result, q, w). unat (link_count (heap w (state q))) - i)")
     (auto simp: poke_measured_def)

declare propagate_from.simps [simp del]

definition propagateToLinks :: "8 word \<Rightarrow> Qubit \<Rightarrow> world \<Rightarrow> world" where
  "propagateToLinks result q w = propagate_from 0 result q w"

section \<open>Public operations\<close>

definition initSuperposition :: "Qubit \<Rightarrow> 64 word \<Rightarrow> world \<Rightarrow> world" where
  "initSuperposition q now w =
     on_state q (updateTimestamp q now)
       (on_state q resetLinks
          (on_state q (\<lambda>s. s\<lparr>alpha_real := ddiv (Fin 1) M_SQRT2, alpha_imag := Fin 0,
                               beta_real := ddiv (Fin 1) M_SQRT2, beta_imag := Fin 0, measured := 2\<rparr>) w))"

text \<open>
  \<^verbatim>\<open>measure\<close>; \<open>u\<close> is the generator's variate and \<open>now\<close> the reading of \<^verbatim>\<open>nowMs()\<close>. The
  result is the returned byte and the store after the call.
\<close>

definition measure_qubit :: "Qubit \<Rightarrow> real \<Rightarrow> 64 word \<Rightarrow> world \<Rightarrow> 8 word \<times> world" where
  "measure_qubit q u now w =
     (if measured (heap w (state q)) \<noteq> 2 then (measured (heap w (state q)), w)
      else
        (let p0 = norm_q (alpha_real (heap w (state q))) (alpha_imag (heap w (state q)));
             p1 = norm_q (beta_real (heap w (state q))) (beta_imag (heap w (state q)));
             result = (if bernoulli p1 u then 1 else 0);
             w1 = on_state q (\<lambda>s. s\<lparr>measured := result\<rparr>) w;
             w2 = (if result = 0
                   then on_state q (\<lambda>s. s\<lparr>alpha_real := Fin 1, alpha_imag := Fin 0,
                                             beta_real := Fin 0, beta_imag := Fin 0\<rparr>) w1
                   else on_state q (\<lambda>s. s\<lparr>alpha_real := Fin 0, alpha_imag := Fin 0,
                                             beta_real := Fin 1, beta_imag := Fin 0\<rparr>) w1);
             w3 = propagateToLinks result q w2;
             w4 = on_state q (updateTimestamp q now) w3
         in (result, w4)))"

text \<open>
  \<^verbatim>\<open>applyGate\<close>. The first component is what the call writes to \<^verbatim>\<open>std::cerr\<close>.
\<close>

definition applyGate :: "Qubit \<Rightarrow> char \<Rightarrow> 64 word \<Rightarrow> world \<Rightarrow> string list \<times> world" where
  "applyGate q gate now w =
     (if measured (heap w (state q)) \<noteq> 2 then ([], w)
      else
        (let ar = alpha_real (heap w (state q)); ai = alpha_imag (heap w (state q));
             br = beta_real (heap w (state q)); bi = beta_imag (heap w (state q));
             (err, w1) =
               (if gate = CHR ''H'' then
                  ([], on_state q (\<lambda>s. s\<lparr>alpha_real := ddiv (dadd ar br) M_SQRT2,
                                           alpha_imag := ddiv (dadd ai bi) M_SQRT2,
                                           beta_real := ddiv (dsub ar br) M_SQRT2,
                                           beta_imag := ddiv (dsub ai bi) M_SQRT2\<rparr>) w)
                else if gate = CHR ''X'' then
                  ([], on_state q (\<lambda>s. s\<lparr>alpha_real := br, alpha_imag := bi,
                                           beta_real := ar, beta_imag := ai\<rparr>) w)
                else if gate = CHR ''Z'' then
                  ([], on_state q (\<lambda>s. s\<lparr>beta_real := dneg br, beta_imag := dneg bi\<rparr>) w)
                else ([''Unknown gate: '' @ [gate]], w))
         in (err, on_state q (updateTimestamp q now) w1)))"

text \<open>
  \<^verbatim>\<open>strncpy(dst, src, n)\<close>: at most \<open>n\<close> bytes of the C string, padded with NUL up to
  \<open>n\<close>; the bytes of \<open>dst\<close> from \<open>n\<close> on are not touched.
\<close>

definition strncpy :: "string \<Rightarrow> string \<Rightarrow> nat \<Rightarrow> string" where
  "strncpy dst src n =
     take n (c_str src) @ replicate (n - length (c_str src)) NUL @ drop n dst"

definition entangle :: "Qubit \<Rightarrow> string list \<Rightarrow> world \<Rightarrow> world" where
  "entangle q peers w =
     (let n = min (length peers) 4;
          w1 = fold (\<lambda>i. on_state q
                      (\<lambda>s. s\<lparr>links := (links s)[i := strncpy (links s ! i) (peers ! i) 63]\<rparr>))
                 [0..<n] w
      in on_state q (\<lambda>s. s\<lparr>link_count := of_nat n\<rparr>) w1)"

definition setState ::
  "Qubit \<Rightarrow> double \<Rightarrow> double \<Rightarrow> double \<Rightarrow> double \<Rightarrow> 64 word \<Rightarrow> world \<Rightarrow> world" where
  "setState q ar ai br bi now w =
     on_state q (updateTimestamp q now)
       (on_state q (\<lambda>s. s\<lparr>alpha_real := ar, alpha_imag := ai,
                            beta_real := br, beta_imag := bi, measured := 2\<rparr>) w)"

definition isMeasured :: "Qubit \<Rightarrow> world \<Rightarrow> bool" where
  "isMeasured q w \<longleftrightarrow> measured (heap w (state q)) \<noteq> 2"

definition getMeasurement :: "Qubit \<Rightarrow> world \<Rightarrow> 8 word" where
  "getMeasurement q w = measured (heap w (state q))"

text \<open>
  \<^verbatim>\<open>formGHZGroup\<close>. \<open>ghz_peers\<close> is the inner loop, which collects the names of all
  members but the \<open>i\<close>-th; \<open>ghz_round\<close> is the body of the outer loop, where \<open>clock i\<close> is
  the reading of \<^verbatim>\<open>nowMs()\<close> in round \<open>i\<close>. The first component of the result is what the
  call writes to \<^verbatim>\<open>std::cerr\<close>.
\<close>

definition ghz_peers :: "Qubit list \<Rightarrow> nat \<Rightarrow> string list" where
  "ghz_peers qubits i =
     map (\<lambda>j. shm_name (qubits ! j)) (filter (\<lambda>j. i \<noteq> j) [0..<length qubits])"

definition ghz_round :: "Qubit list \<Rightarrow> (nat \<Rightarrow> 64 word) \<Rightarrow> nat \<Rightarrow> world \<Rightarrow> world" where
  "ghz_round qubits clock i w =
     setState (qubits ! i) (ddiv (Fin 1) M_SQRT2) (Fin 0) (ddiv (Fin 1) M_SQRT2) (Fin 0) (clock i)
       (entangle (qubits ! i) (ghz_peers qubits i) w)"

definition formGHZGroup :: "Qubit list \<Rightarrow> (nat \<Rightarrow> 64 word) \<Rightarrow> world \<Rightarrow> string list \<times> world" where
  "formGHZGroup qubits clock w =
     (let n = length qubits in
      if n < 2 \<or> n > 5 then ([''GHZ group size must be between 2 and 5''], w)
      else ([], fold (ghz_round qubits clock) [0..<n] w))"

section \<open>Construction and the decoherence thread\<close>

text \<open>
  \<^verbatim>\<open>openOrCreate\<close>: \<^verbatim>\<open>shm_open\<close> with \<^verbatim>\<open>O_CREAT\<close>, \<^verbatim>\<open>ftruncate\<close> and \<^verbatim>\<open>mmap\<close>. A name that
  is not there yet gets a fresh, zero-filled segment. \<open>None\<close> is \<^verbatim>\<open>exit(1)\<close>.
\<close>

definition openOrCreate :: "string \<Rightarrow> world \<Rightarrow> seg option \<times> world" where
  "openOrCreate nm w =
     (if open_denied w (c_str nm) then (None, w)
      else
        (let (fd, w1) =
               (case names w (c_str nm) of
                  Some fd \<Rightarrow> (fd, w)
                | None \<Rightarrow>
                    (next_seg w,
                     w\<lparr>names := (names w)(c_str nm \<mapsto> next_seg w),
                       heap := (heap w)(next_seg w := zero_state),
                       next_seg := next_seg w + 1\<rparr>))
         in (mmap_seg w1 fd, w1)))"

definition initHeader :: "Qubit \<Rightarrow> 64 word \<Rightarrow> world \<Rightarrow> world" where
  "initHeader q now w =
     (if task_id (heap w (state q)) \<noteq> owner_task q then
        on_state q (updateTimestamp q now)
          (on_state q (\<lambda>s. s\<lparr>task_id := owner_task q\<rparr>)
             (on_state q (\<lambda>s. zero_state) w))
      else w)"

text \<open>The constructor; the thread it starts is the repetition of \<open>decohere_tick\<close> below.\<close>

definition Qubit_new :: "string \<Rightarrow> 32 word \<Rightarrow> 64 word \<Rightarrow> 64 word \<Rightarrow> world \<Rightarrow> Qubit option \<times> world" where
  "Qubit_new nm taskId decohereTimeoutMs now w =
     (case openOrCreate nm w of
        (None, w1) \<Rightarrow> (None, w1)
      | (Some fd, w1) \<Rightarrow>
          (let q = \<lparr>shm_name = nm, owner_task = taskId,
                    decohere_timeout = decohereTimeoutMs, state = fd\<rparr>
           in (Some q, initHeader q now w1)))"

text \<open>
  One round of the thread's loop after its sleep, under the mutex: \<open>u\<close> is the
  generator's variate, \<open>now\<close> the reading of \<^verbatim>\<open>nowMs()\<close>. The subtraction is the unsigned
  64-bit one.
\<close>

definition decohere_tick :: "Qubit \<Rightarrow> real \<Rightarrow> 64 word \<Rightarrow> world \<Rightarrow> world" where
  "decohere_tick q u now w =
     (if measured (heap w (state q)) = 2
         \<and> now - created_at (heap w (state q)) > decohere_timeout_ms (heap w (state q))
      then
        (let p1 = norm_q (beta_real (heap w (state q))) (beta_imag (heap w (state q)));
             w1 = on_state q (\<lambda>s. s\<lparr>measured := (if bernoulli p1 u then 1 else 0)\<rparr>) w
         in propagateToLinks (measured (heap w1 (state q))) q w1)
      else w)"

section \<open>Notions used to state the properties\<close>

text \<open>A real value rounded to binary64 and then divided by \<^verbatim>\<open>M_SQRT2\<close>, rounded again:
  one half of the Hadamard step on values that stay finite.\<close>

definition hround :: "real \<Rightarrow> real" where
  "hround x = rnd (rnd x / sqrt2_64)"

text \<open>The squared modulus as \<^verbatim>\<open>norm\<close> computes it on finite components that do not
  overflow: two rounded products and their rounded sum.\<close>

definition norm_val :: "real \<Rightarrow> real \<Rightarrow> real" where
  "norm_val x y = rnd (rnd (x * x) + rnd (y * y))"

text \<open>The value of \<^verbatim>\<open>1.0 / M_SQRT2\<close>.\<close>

definition inv_sqrt2_64 :: real where
  "inv_sqrt2_64 = rnd (1 / sqrt2_64)"

text \<open>A binary64 value that is finite and within \<open>tol\<close> of the real number \<open>x\<close>.\<close>

fun close_to :: "real \<Rightarrow> double \<Rightarrow> real \<Rightarrow> bool" where
  "close_to tol (Fin v) x \<longleftrightarrow> \<bar>v - x\<bar> \<le> tol"
| "close_to tol PInf x \<longleftrightarrow> False"
| "close_to tol NInf x \<longleftrightarrow> False"
| "close_to tol NaN x \<longleftrightarrow> False"

text \<open>The four amplitude components of a record.\<close>

definition amps :: "QubitState \<Rightarrow> double \<times> double \<times> double \<times> double" where
  "amps s = (alpha_real s, alpha_imag s, beta_real s, beta_imag s)"

text \<open>The segment a peer name resolves to, if it can be opened and mapped.\<close>

definition open_peer :: "world \<Rightarrow> string \<Rightarrow> seg option" where
  "open_peer w nm = (case shm_open w nm of None \<Rightarrow> None | Some fd \<Rightarrow> mmap_seg w fd)"

text \<open>The segments that the stored peer names of \<open>q\<close> resolve to, in the order of the
  link table, from slot \<open>i\<close> on.\<close>

definition notified_from :: "nat \<Rightarrow> Qubit \<Rightarrow> world \<Rightarrow> seg list" where
  "notified_from i q w =
     List.map_filter (\<lambda>j. open_peer w (link_at (heap w (state q)) j))
       [i..<unat (link_count (heap w (state q)))]"

definition notified :: "Qubit \<Rightarrow> world \<Rightarrow> seg list" where
  "notified q w = notified_from 0 q w"

text \<open>The spec's invariant on one record: a collapsed record carries the amplitudes of
  its outcome.\<close>

definition collapsed_amps :: "QubitState \<Rightarrow> bool" where
  "collapsed_amps s \<longleftrightarrow>
     measured s = 2
     \<or> (measured s = 0 \<and> amps s = (Fin 1, Fin 0, Fin 0, Fin 0))
     \<or> (measured s = 1 \<and> amps s = (Fin 0, Fin 0, Fin 1, Fin 0))"

text \<open>The stored peer names of a record, and whether one of them is the name under which
  \<open>q\<close> opens its own segment.\<close>

definition link_names :: "QubitState \<Rightarrow> string list" where
  "link_names s = map (link_at s) [0..<unat (link_count s)]"


text \<open>The layout of the link table: four slots of 64 bytes. The last byte of a slot is
  written by no operation and is the NUL of the zero-filled segment.\<close>

definition slot_ok :: "string \<Rightarrow> bool" where
  "slot_ok sl \<longleftrightarrow> length sl = 64 \<and> sl ! 63 = NUL"


text \<open>The copying loop of \<^verbatim>\<open>entangle\<close> on the link table alone.\<close>

definition copy_links :: "string list \<Rightarrow> nat list \<Rightarrow> string list \<Rightarrow> string list" where
  "copy_links peers js ls = fold (\<lambda>i l. l[i := strncpy (l ! i) (peers ! i) 63]) js ls"

section \<open>Concrete stores\<close>

definition ex_world0 :: world where
  "ex_world0 =
     \<lparr>names = Map.empty, heap = (\<lambda>a. zero_state), next_seg = 0,
      open_denied = (\<lambda>nm. False), mmap_fails = (\<lambda>a. False)\<rparr>"

definition ex_q1 :: Qubit where
  "ex_q1 = \<lparr>shm_name = ''bell_qubit1'', owner_task = 1, decohere_timeout = 5000, state = 0\<rparr>"

definition ex_q2 :: Qubit where
  "ex_q2 = \<lparr>shm_name = ''bell_qubit2'', owner_task = 1, decohere_timeout = 5000, state = 1\<rparr>"

text \<open>The clock's readings in the rounds of group formation.\<close>

definition ex_clock :: "nat \<Rightarrow> 64 word" where
  "ex_clock i = 102 + of_nat i"

text \<open>Two registers are constructed one after the other in the empty store, then grouped.\<close>

definition ex_world1 :: world where
  "ex_world1 = snd (Qubit_new ''bell_qubit1'' 1 5000 100 ex_world0)"

definition ex_world2 :: world where
  "ex_world2 = snd (Qubit_new ''bell_qubit2'' 1 5000 101 ex_world1)"

definition ex_world3 :: world where
  "ex_world3 = snd (formGHZGroup [ex_q1, ex_q2] ex_clock ex_world2)"

definition ex_q3 :: Qubit where
  "ex_q3 = \<lparr>shm_name = ''bell_qubit3'', owner_task = 1, decohere_timeout = 5000, state = 2\<rparr>"

text \<open>A third register is constructed and given a state; the first register is linked to
  a name that does not exist and to the second, the second to the third.\<close>

definition ex_world4 :: world where
  "ex_world4 =
     entangle ex_q2 [''bell_qubit3'']
       (entangle ex_q1 [''no_such_peer'', ''bell_qubit2'']
          (setState ex_q3 (to_double (3 / 5)) (Fin 0) (to_double (4 / 5)) (Fin 0) 104
             (snd (Qubit_new ''bell_qubit3'' 1 5000 103 ex_world3))))"

text \<open>The third register is set to the basis state, as the single-register test does,
  and then flipped.\<close>

definition ex_world5 :: world where
  "ex_world5 = setState ex_q3 (Fin 1) (Fin 0) (Fin 0) (Fin 0) 107 ex_world4"

definition ex_world6 :: world where
  "ex_world6 = snd (applyGate ex_q3 (CHR ''X'') 108 ex_world5)"

text \<open>The first register of the linked store is measured with a variate of 1/4.\<close>

definition ex_world7 :: world where
  "ex_world7 = snd (measure_qubit ex_q1 (1 / 4) 105 ex_world4)"

text \<open>The linked store again, with \<^verbatim>\<open>mmap\<close> failing on the second register's segment.\<close>

definition ex_world8 :: world where
  "ex_world8 = ex_world4\<lparr>mmap_fails := (\<lambda>a. a = Suc 0)\<rparr>"

text \<open>The third register with both components of both amplitudes at 1/2, and with real
  parts of the size of the largest power of two.\<close>

definition ex_world9 :: world where
  "ex_world9 = setState ex_q3 (Fin (1 / 2)) (Fin (1 / 2)) (Fin (1 / 2)) (Fin (1 / 2)) 107 ex_world4"

definition ex_world10 :: world where
  "ex_world10 = setState ex_q3 (Fin (2 ^ 1023)) (Fin 0) (Fin (2 ^ 1023)) (Fin 0) 107 ex_world4"

section \<open>Auxiliary facts\<close>

subsection \<open>Rounding to binary64\<close>

lemma round_even_err: "\<bar>of_int (round_even y) - y\<bar> \<le> 1 / 2"
proof -
  define n where "n = \<lfloor>y\<rfloor>"
  have f: "of_int n \<le> y" "y < of_int n + 1"
    unfolding n_def by linarith+
  have r: "round_even y =
     (if y - of_int n < 1 / 2 then n
      else if 1 / 2 < y - of_int n then n + 1
      else if even n then n else n + 1)"
    unfolding round_even_def n_def ..
  from f show ?thesis
    unfolding r by (auto simp: abs_if)
qed

lemma ulp_pos: "0 < ulp x"
  by (simp add: ulp_def)

lemma rnd_err_ulp: "\<bar>rnd x - x\<bar> \<le> ulp x / 2"
proof -
  have "rnd x - x = ulp x * (of_int (round_even (x / ulp x)) - x / ulp x)"
    using ulp_pos [of x] by (simp add: rnd_def algebra_simps)
  then have "\<bar>rnd x - x\<bar> = ulp x * \<bar>of_int (round_even (x / ulp x)) - x / ulp x\<bar>"
    using ulp_pos [of x] by (simp add: abs_mult)
  also have "\<dots> \<le> ulp x * (1 / 2)"
    using ulp_pos [of x] round_even_err [of "x / ulp x"] by (intro mult_left_mono) simp_all
  finally show ?thesis by simp
qed

lemma two_powr_m52: "(2::real) powr (- 52) = 1 / 2 ^ 52"
proof -
  have "(2::real) powr (- 52) = inverse (2 powr 52)" by (rule powr_minus)
  also have "(2::real) powr 52 = 2 ^ 52" by (rule powr_numeral) simp
  finally show ?thesis by (simp add: inverse_eq_divide)
qed

lemma two_powr_m1074: "(2::real) powr (- 1074) = 1 / 2 ^ 1074"
proof -
  have "(2::real) powr (- 1074) = inverse (2 powr 1074)" by (rule powr_minus)
  also have "(2::real) powr 1074 = 2 ^ 1074" by (rule powr_numeral) simp
  finally show ?thesis by (simp add: inverse_eq_divide)
qed

lemma ulp_le: "ulp x \<le> \<bar>x\<bar> / 2 ^ 52 + 1 / 2 ^ 1074"
proof (cases "x \<noteq> 0 \<and> - 1022 \<le> \<lfloor>log 2 \<bar>x\<bar>\<rfloor>")
  case True
  then have e: "expo x = \<lfloor>log 2 \<bar>x\<bar>\<rfloor>" by (simp add: expo_def)
  have "ulp x = 2 powr (of_int \<lfloor>log 2 \<bar>x\<bar>\<rfloor>) * 2 powr (- 52)"
    unfolding ulp_def e by (simp add: powr_add [symmetric])
  also have "2 powr (of_int \<lfloor>log 2 \<bar>x\<bar>\<rfloor>) \<le> 2 powr (log 2 \<bar>x\<bar>)"
    by (intro powr_mono) simp_all
  also have "2 powr (log 2 \<bar>x\<bar>) = \<bar>x\<bar>"
    using True by simp
  finally have "ulp x \<le> \<bar>x\<bar> * 2 powr (- 52)" by simp
  then show ?thesis by (simp add: two_powr_m52)
next
  case False
  then have "expo x = - 1022" by (auto simp: expo_def)
  then have "ulp x = 2 powr (- 1074)" by (simp add: ulp_def)
  then show ?thesis by (simp add: two_powr_m1074)
qed

lemma rnd_err: "\<bar>rnd x - x\<bar> \<le> eps * \<bar>x\<bar> + eta"
proof -
  have "ulp x / 2 \<le> (\<bar>x\<bar> / 2 ^ 52 + 1 / 2 ^ 1074) / 2"
    using ulp_le [of x] by (intro divide_right_mono) simp_all
  with rnd_err_ulp [of x]
  have "\<bar>rnd x - x\<bar> \<le> (\<bar>x\<bar> / 2 ^ 52 + 1 / 2 ^ 1074) / 2"
    by (rule order_trans)
  also have "\<dots> = eps * \<bar>x\<bar> + eta"
    by (simp add: eps_def eta_def field_simps)
  finally show ?thesis .
qed

lemma rnd_0: "rnd 0 = 0"
  by (simp add: rnd_def round_even_def)

lemma eps_bounds: "0 < eps" "eps \<le> 1 / 1000"
  by (simp_all add: eps_def)

lemma eta_pos: "0 < eta"
  by (simp add: eta_def)

lemma to_double_Fin: "\<bar>x\<bar> < overflow_at \<Longrightarrow> to_double x = Fin (rnd x)"
  by (auto simp: to_double_def)

lemma overflow_at_big: "2 ^ 1010 < overflow_at"
  by (simp add: overflow_at_def)

lemma sqrt2_64_sq: "2 < sqrt2_64 * sqrt2_64" "sqrt2_64 * sqrt2_64 - 2 \<le> 4 * eps"
  by (simp_all add: sqrt2_64_def eps_def)

lemma sqrt2_64_range: "4 / 3 \<le> sqrt2_64" "sqrt2_64 \<le> 3 / 2"
  by (simp_all add: sqrt2_64_def)

lemma sqrt2_range: "4 / 3 \<le> sqrt 2" "sqrt 2 \<le> 3 / 2"
proof -
  have "sqrt ((4 / 3) ^ 2) \<le> sqrt 2" by (intro real_sqrt_le_mono) (simp add: power2_eq_square)
  then show "4 / 3 \<le> sqrt 2" by simp
  have "sqrt 2 \<le> sqrt ((3 / 2) ^ 2)" by (intro real_sqrt_le_mono) (simp add: power2_eq_square)
  then show "sqrt 2 \<le> 3 / 2" by simp
qed

lemma sqrt2_64_close: "\<bar>1 / sqrt2_64 - 1 / sqrt 2\<bar> \<le> eps"
proof -
  define s where "s = sqrt2_64"
  define r where "r = sqrt 2"
  define q where "q = s * s - 2"
  have r2: "r * r = 2" by (simp add: r_def)
  have sr: "4 / 3 \<le> s" "4 / 3 \<le> r"
    using sqrt2_64_range sqrt2_range by (simp_all add: s_def r_def)
  have d: "0 < q" "q \<le> 4 * eps"
    using sqrt2_64_sq by (simp_all add: s_def q_def)
  have "(s - r) * (s + r) = q"
    using r2 by (simp add: algebra_simps q_def)
  then have e: "s - r = q / (s + r)"
    using sr by (simp add: field_simps)
  have pos: "0 < s - r" unfolding e using d sr by (intro divide_pos_pos) simp_all
  have "q / (s + r) \<le> q / 2"
    using d sr by (intro divide_left_mono) simp_all
  then have le: "s - r \<le> 2 * eps" using d e by linarith
  have "r * r \<le> s * r" using pos sr by (intro mult_right_mono) simp_all
  then have sr2: "2 \<le> s * r" using r2 by simp
  have "1 / s - 1 / r = - ((s - r) / (s * r))"
    using sr by (simp add: field_simps)
  moreover have "0 < (s - r) / (s * r)"
    using pos sr2 by (intro divide_pos_pos) simp_all
  ultimately have "\<bar>1 / s - 1 / r\<bar> = (s - r) / (s * r)"
    by (simp only: abs_minus_cancel abs_of_pos)
  also have "\<dots> \<le> (s - r) / 2"
    using pos sr2 by (intro divide_left_mono) simp_all
  also have "\<dots> \<le> eps" using le by simp
  finally show ?thesis by (simp add: s_def r_def)
qed

lemma inv_sqrt2_64_le: "1 / sqrt2_64 \<le> 3 / 4"
  by (simp add: sqrt2_64_def)

lemma abs_rnd_le: "\<bar>rnd x\<bar> \<le> 2 * \<bar>x\<bar> + eta"
proof -
  have "eps * \<bar>x\<bar> \<le> 1 * \<bar>x\<bar>"
    using eps_bounds by (intro mult_right_mono) simp_all
  with rnd_err [of x] show ?thesis by simp
qed

text \<open>One rounded operand followed by the rounded division by the constant.\<close>

lemma round_div_sqrt2:
  "\<bar>rnd (rnd x / sqrt2_64) - x / sqrt 2\<bar> \<le> 5 * (eps * \<bar>x\<bar>) + 3 * eta"
proof -
  define p where "p = rnd x"
  define r where "r = rnd (p / sqrt2_64)"
  have f1: "\<bar>p - x\<bar> \<le> eps * \<bar>x\<bar> + eta"
    unfolding p_def by (rule rnd_err)
  have f2: "\<bar>r - p / sqrt2_64\<bar> \<le> eps * \<bar>p / sqrt2_64\<bar> + eta"
    unfolding r_def by (rule rnd_err)
  have pm: "\<bar>p\<bar> \<le> 2 * \<bar>x\<bar> + eta"
    unfolding p_def by (rule abs_rnd_le)
  have s0: "0 < sqrt2_64" using sqrt2_64_range by linarith
  have "\<bar>p / sqrt2_64\<bar> = \<bar>p\<bar> * (1 / sqrt2_64)"
    using s0 by (simp add: abs_divide abs_of_pos)
  also have "\<dots> \<le> \<bar>p\<bar> * (3 / 4)"
    using inv_sqrt2_64_le by (intro mult_left_mono) simp_all
  finally have "\<bar>p / sqrt2_64\<bar> \<le> \<bar>p\<bar> * (3 / 4)" .
  then have f3: "\<bar>p / sqrt2_64\<bar> \<le> \<bar>p\<bar>" by linarith
  have "p / sqrt2_64 - p / sqrt 2 = p * (1 / sqrt2_64 - 1 / sqrt 2)"
    by (simp add: algebra_simps)
  then have "\<bar>p / sqrt2_64 - p / sqrt 2\<bar> = \<bar>p\<bar> * \<bar>1 / sqrt2_64 - 1 / sqrt 2\<bar>"
    by (simp add: abs_mult)
  also have "\<dots> \<le> \<bar>p\<bar> * eps"
    using sqrt2_64_close by (intro mult_left_mono) simp_all
  finally have f4: "\<bar>p / sqrt2_64 - p / sqrt 2\<bar> \<le> eps * \<bar>p\<bar>"
    by (simp add: mult.commute)
  have "p / sqrt 2 - x / sqrt 2 = (p - x) * (1 / sqrt 2)"
    by (simp add: algebra_simps diff_divide_distrib)
  then have "\<bar>p / sqrt 2 - x / sqrt 2\<bar> = \<bar>p - x\<bar> * (1 / sqrt 2)"
    by (simp add: abs_mult)
  also have "\<dots> \<le> \<bar>p - x\<bar> * 1"
    using sqrt2_range by (intro mult_left_mono) (simp_all add: field_simps)
  finally have f5: "\<bar>p / sqrt 2 - x / sqrt 2\<bar> \<le> \<bar>p - x\<bar>" by simp
  have "eps * \<bar>p\<bar> \<le> eps * (2 * \<bar>x\<bar> + eta)"
    using pm eps_bounds by (intro mult_left_mono) simp_all
  moreover have "eps * eta \<le> (1 / 1000) * eta"
    using eps_bounds eta_pos by (intro mult_right_mono) simp_all
  ultimately have f6: "eps * \<bar>p\<bar> \<le> 2 * (eps * \<bar>x\<bar>) + eta / 1000"
    by (simp add: algebra_simps)
  have f7: "eps * \<bar>p / sqrt2_64\<bar> \<le> eps * \<bar>p\<bar>"
    using f3 eps_bounds by (intro mult_left_mono) simp_all
  have "\<bar>r - x / sqrt 2\<bar> \<le> \<bar>r - p / sqrt2_64\<bar> + \<bar>p / sqrt2_64 - p / sqrt 2\<bar>
          + \<bar>p / sqrt 2 - x / sqrt 2\<bar>"
    by linarith
  with f1 f2 f4 f5 f6 f7 eta_pos show ?thesis
    unfolding r_def p_def by linarith
qed

subsection \<open>The Hadamard step in binary64\<close>

lemma eta_le_1: "eta \<le> 1"
  by (simp add: eta_def)

lemma overflow_at_room: "2 ^ 1006 + 1 < overflow_at"
  by (simp add: overflow_at_def)

lemma half_gate:
  assumes "\<bar>x\<bar> \<le> 2 ^ 1005"
  shows "ddiv (to_double x) M_SQRT2 = Fin (hround x)"
proof -
  have s0: "0 < sqrt2_64" using sqrt2_64_range by linarith
  have "\<bar>x\<bar> < overflow_at" using assms overflow_at_room by simp
  then have t: "to_double x = Fin (rnd x)" by (rule to_double_Fin)
  have "\<bar>rnd x / sqrt2_64\<bar> = \<bar>rnd x\<bar> * (1 / sqrt2_64)"
    using s0 by (simp add: abs_divide abs_of_pos)
  also have "\<dots> \<le> \<bar>rnd x\<bar> * (3 / 4)"
    using inv_sqrt2_64_le by (intro mult_left_mono) simp_all
  finally have "\<bar>rnd x / sqrt2_64\<bar> \<le> \<bar>rnd x\<bar> * (3 / 4)" .
  moreover have "2 * (2::real) ^ 1005 = 2 ^ 1006" by simp
  ultimately have "\<bar>rnd x / sqrt2_64\<bar> \<le> 2 ^ 1006 + 1"
    using abs_rnd_le [of x] assms eta_le_1 by linarith
  with overflow_at_room have "\<bar>rnd x / sqrt2_64\<bar> < overflow_at" by linarith
  then have "to_double (rnd x / sqrt2_64) = Fin (rnd (rnd x / sqrt2_64))"
    by (rule to_double_Fin)
  with s0 show ?thesis by (simp add: t M_SQRT2_def hround_def)
qed

lemma hround_err: "\<bar>hround x - x / sqrt 2\<bar> \<le> 5 * (eps * \<bar>x\<bar>) + 3 * eta"
  unfolding hround_def by (rule round_div_sqrt2)

lemma div_sqrt2_le: "\<bar>y / sqrt 2\<bar> \<le> \<bar>y\<bar>"
proof -
  have "\<bar>y / sqrt 2\<bar> = \<bar>y\<bar> * (1 / sqrt 2)" by (simp add: abs_divide)
  also have "\<dots> \<le> \<bar>y\<bar> * 1"
    using sqrt2_range by (intro mult_left_mono) (simp_all add: field_simps)
  finally show ?thesis by simp
qed

lemma hadamard_pair_error:
  fixes a b :: real
  defines "a1 \<equiv> hround (a + b)" and "b1 \<equiv> hround (a - b)"
  shows "\<bar>a1 + b1 - sqrt 2 * a\<bar> \<le> 10 * (eps * (\<bar>a\<bar> + \<bar>b\<bar>)) + 6 * eta"
    and "\<bar>a1 - b1 - sqrt 2 * b\<bar> \<le> 10 * (eps * (\<bar>a\<bar> + \<bar>b\<bar>)) + 6 * eta"
proof -
  have e1: "\<bar>a1 - (a + b) / sqrt 2\<bar> \<le> 5 * (eps * \<bar>a + b\<bar>) + 3 * eta"
    unfolding a1_def by (rule hround_err)
  have e2: "\<bar>b1 - (a - b) / sqrt 2\<bar> \<le> 5 * (eps * \<bar>a - b\<bar>) + 3 * eta"
    unfolding b1_def by (rule hround_err)
  have m1: "eps * \<bar>a + b\<bar> \<le> eps * (\<bar>a\<bar> + \<bar>b\<bar>)"
    using eps_bounds by (intro mult_left_mono) simp_all
  have m2: "eps * \<bar>a - b\<bar> \<le> eps * (\<bar>a\<bar> + \<bar>b\<bar>)"
    using eps_bounds by (intro mult_left_mono) simp_all
  have q: "2 / sqrt 2 = sqrt 2"
    by (simp add: real_div_sqrt)
  have "(a + b) / sqrt 2 + (a - b) / sqrt 2 = (2 / sqrt 2) * a"
       "(a + b) / sqrt 2 - (a - b) / sqrt 2 = (2 / sqrt 2) * b"
    by (simp_all add: field_simps)
  then have s: "(a + b) / sqrt 2 + (a - b) / sqrt 2 = sqrt 2 * a"
       "(a + b) / sqrt 2 - (a - b) / sqrt 2 = sqrt 2 * b"
    by (simp_all only: q)
  from e1 e2 m1 m2 s show "\<bar>a1 + b1 - sqrt 2 * a\<bar> \<le> 10 * (eps * (\<bar>a\<bar> + \<bar>b\<bar>)) + 6 * eta"
    by linarith
  from e1 e2 m1 m2 s show "\<bar>a1 - b1 - sqrt 2 * b\<bar> \<le> 10 * (eps * (\<bar>a\<bar> + \<bar>b\<bar>)) + 6 * eta"
    by linarith
qed

text \<open>The second half: a rounded sum \<open>y\<close> close to \<open>sqrt 2 * c\<close> comes back close to \<open>c\<close>.\<close>

lemma hadamard_back:
  assumes "\<bar>y - sqrt 2 * c\<bar> \<le> 10 * (eps * m) + 6 * eta" "\<bar>c\<bar> \<le> m"
  shows "\<bar>hround y - c\<bar> \<le> 20 * (eps * m) + 10 * eta"
    and "\<bar>y\<bar> \<le> 2 * m + 6 * eta"
proof -
  have m0: "0 \<le> m" using assms(2) by linarith
  have em: "0 \<le> eps * m" "eps * m \<le> m / 1000"
    using eps_bounds m0 mult_right_mono [of eps "1 / 1000" m] by simp_all
  have "\<bar>sqrt 2 * c\<bar> = sqrt 2 * \<bar>c\<bar>" by (simp add: abs_mult)
  also have "\<dots> \<le> (3 / 2) * \<bar>c\<bar>"
    using sqrt2_range by (intro mult_right_mono) simp_all
  finally have sc: "\<bar>sqrt 2 * c\<bar> \<le> (3 / 2) * m" using assms(2) by linarith
  with assms(1) em show y: "\<bar>y\<bar> \<le> 2 * m + 6 * eta" by linarith
  have "eps * \<bar>y\<bar> \<le> eps * (2 * m + 6 * eta)"
    using y eps_bounds by (intro mult_left_mono) simp_all
  moreover have "eps * eta \<le> (1 / 1000) * eta"
    using eps_bounds eta_pos by (intro mult_right_mono) simp_all
  moreover have "eps * (2 * m + 6 * eta) = 2 * (eps * m) + 6 * (eps * eta)"
    by (simp add: algebra_simps)
  ultimately have ey: "eps * \<bar>y\<bar> \<le> 2 * (eps * m) + eta / 100"
    using eta_pos by linarith
  have "y / sqrt 2 - c = (y - sqrt 2 * c) / sqrt 2"
    by (simp add: diff_divide_distrib)
  then have "\<bar>y / sqrt 2 - c\<bar> \<le> \<bar>y - sqrt 2 * c\<bar>"
    using div_sqrt2_le [of "y - sqrt 2 * c"] by simp
  with hround_err [of y] assms(1) ey eta_pos
  show "\<bar>hround y - c\<bar> \<le> 20 * (eps * m) + 10 * eta" by linarith
qed

lemma hadamard_twice_scalar:
  assumes "\<bar>a\<bar> \<le> 2 ^ 1000" "\<bar>b\<bar> \<le> 2 ^ 1000"
  shows "\<exists>a2 b2.
           ddiv (dadd (ddiv (dadd (Fin a) (Fin b)) M_SQRT2)
                      (ddiv (dsub (Fin a) (Fin b)) M_SQRT2)) M_SQRT2 = Fin a2
         \<and> ddiv (dsub (ddiv (dadd (Fin a) (Fin b)) M_SQRT2)
                      (ddiv (dsub (Fin a) (Fin b)) M_SQRT2)) M_SQRT2 = Fin b2
         \<and> \<bar>a2 - a\<bar> \<le> 20 * (eps * (\<bar>a\<bar> + \<bar>b\<bar>)) + 10 * eta
         \<and> \<bar>b2 - b\<bar> \<le> 20 * (eps * (\<bar>a\<bar> + \<bar>b\<bar>)) + 10 * eta"
proof -
  define m where "m = \<bar>a\<bar> + \<bar>b\<bar>"
  define a1 where "a1 = hround (a + b)"
  define b1 where "b1 = hround (a - b)"
  have pw: "2 * (2::real) ^ 1000 = 2 ^ 1001" "2 * (2::real) ^ 1001 + 6 \<le> 2 ^ 1005"
    by simp_all
  have mb: "m \<le> 2 ^ 1001" using assms pw(1) unfolding m_def by linarith
  have pw2: "2 * (2::real) ^ 1000 \<le> 2 ^ 1005" by simp
  have "\<bar>a + b\<bar> \<le> 2 ^ 1005" using assms pw2 by linarith
  then have h1: "ddiv (dadd (Fin a) (Fin b)) M_SQRT2 = Fin a1"
    by (simp add: a1_def half_gate)
  have "\<bar>a - b\<bar> \<le> 2 ^ 1005" using assms pw2 by linarith
  then have h2: "ddiv (dsub (Fin a) (Fin b)) M_SQRT2 = Fin b1"
    by (simp add: b1_def dsub_def half_gate)
  have p: "\<bar>a1 + b1 - sqrt 2 * a\<bar> \<le> 10 * (eps * m) + 6 * eta"
       "\<bar>a1 - b1 - sqrt 2 * b\<bar> \<le> 10 * (eps * m) + 6 * eta"
    unfolding a1_def b1_def m_def by (rule hadamard_pair_error)+
  have am: "\<bar>a\<bar> \<le> m" "\<bar>b\<bar> \<le> m" by (simp_all add: m_def)
  note backa = hadamard_back [OF p(1) am(1)]
  note backb = hadamard_back [OF p(2) am(2)]
  have "\<bar>a1 + b1\<bar> \<le> 2 ^ 1005" using backa(2) mb eta_le_1 pw(2) by linarith
  then have g1: "ddiv (dadd (Fin a1) (Fin b1)) M_SQRT2 = Fin (hround (a1 + b1))"
    by (simp add: half_gate)
  have "\<bar>a1 - b1\<bar> \<le> 2 ^ 1005" using backb(2) mb eta_le_1 pw(2) by linarith
  then have g2: "ddiv (dsub (Fin a1) (Fin b1)) M_SQRT2 = Fin (hround (a1 - b1))"
    by (simp add: dsub_def half_gate)
  show ?thesis
    unfolding h1 h2 g1 g2 using backa(1) backb(1) by (auto simp: m_def)
qed

subsection \<open>The squared modulus and the reciprocal constant in binary64\<close>

lemma square_bound:
  fixes x :: real
  assumes "\<bar>x\<bar> \<le> 2 ^ 500"
  shows "x * x \<le> 2 ^ 1000"
proof -
  have "x * x = \<bar>x\<bar> * \<bar>x\<bar>" by (simp add: abs_mult [symmetric])
  also have "\<dots> \<le> 2 ^ 500 * 2 ^ 500"
    using assms by (intro mult_mono) simp_all
  also have "\<dots> = (2::real) ^ 1000" by (simp add: power_add [symmetric])
  finally show ?thesis .
qed

lemma norm_q_finite:
  assumes "\<bar>x\<bar> \<le> 2 ^ 500" "\<bar>y\<bar> \<le> 2 ^ 500"
  shows "norm_q (Fin x) (Fin y) = Fin (norm_val x y)"
    and "\<bar>norm_val x y - (x * x + y * y)\<bar> \<le> 3 * (eps * (x * x + y * y)) + 4 * eta"
proof -
  define a where "a = x * x"
  define b where "b = y * y"
  have ab0: "0 \<le> a" "0 \<le> b"
    by (simp_all add: a_def b_def)
  have "a \<le> 2 ^ 1000" unfolding a_def using assms(1) by (rule square_bound)
  moreover have "b \<le> 2 ^ 1000" unfolding b_def using assms(2) by (rule square_bound)
  ultimately have ab: "0 \<le> a" "0 \<le> b" "a \<le> 2 ^ 1000" "b \<le> 2 ^ 1000"
    using ab0 by blast+
  have room: "(2::real) ^ 1000 < overflow_at" "4 * (2::real) ^ 1000 + 2 < overflow_at"
    by (simp_all add: overflow_at_def)
  have ra: "\<bar>rnd a - a\<bar> \<le> eps * a + eta"
    using rnd_err [of a] ab0 by simp
  have rb: "\<bar>rnd b - b\<bar> \<le> eps * b + eta"
    using rnd_err [of b] ab0 by simp
  have ea: "eps * a \<le> a" "eps * b \<le> b"
    using ab0 eps_bounds mult_right_mono [of eps 1 a] mult_right_mono [of eps 1 b] by simp_all
  have ta: "to_double a = Fin (rnd a)" "to_double b = Fin (rnd b)"
    using ab room by (simp_all add: to_double_Fin)
  have "\<bar>rnd a + rnd b\<bar> \<le> 4 * 2 ^ 1000 + 2"
    using ra rb ea ab eta_le_1 by linarith
  then have "\<bar>rnd a + rnd b\<bar> < overflow_at" using room by linarith
  then have "to_double (rnd a + rnd b) = Fin (rnd (rnd a + rnd b))"
    by (rule to_double_Fin)
  then show "norm_q (Fin x) (Fin y) = Fin (norm_val x y)"
    using ta by (simp add: norm_q_def norm_val_def a_def b_def)
  define s where "s = rnd a + rnd b"
  define EA where "EA = eps * (a + b)"
  define ES where "ES = eps * \<bar>s\<bar>"
  define EE where "EE = eps * eta"
  have rs: "\<bar>rnd s - s\<bar> \<le> ES + eta"
    unfolding ES_def by (rule rnd_err)
  have "\<bar>rnd a\<bar> \<le> 2 * a + eta" using ra ea(1) ab0(1) by linarith
  moreover have "\<bar>rnd b\<bar> \<le> 2 * b + eta" using rb ea(2) ab0(2) by linarith
  ultimately have sb: "\<bar>s\<bar> \<le> 2 * a + 2 * b + 2 * eta"
    unfolding s_def by linarith
  have "eps * \<bar>s\<bar> \<le> eps * (2 * a + 2 * b + 2 * eta)"
    using sb eps_bounds by (intro mult_left_mono) simp_all
  also have "\<dots> = 2 * EA + 2 * EE"
    by (simp add: algebra_simps EA_def EE_def)
  finally have es: "ES \<le> 2 * EA + 2 * EE"
    by (simp add: ES_def)
  have "eps * eta \<le> (1 / 1000) * eta"
    using eps_bounds eta_pos by (intro mult_right_mono) simp_all
  then have ee: "EE \<le> eta / 1000" by (simp add: EE_def)
  have "eps * a + eps * b = EA"
    by (simp add: algebra_simps EA_def)
  with ra rb have rab: "\<bar>s - (a + b)\<bar> \<le> EA + 2 * eta"
    unfolding s_def by linarith
  from rs es ee rab eta_pos have "\<bar>rnd s - (a + b)\<bar> \<le> 3 * EA + 4 * eta"
    by linarith
  then show "\<bar>norm_val x y - (x * x + y * y)\<bar> \<le> 3 * (eps * (x * x + y * y)) + 4 * eta"
    by (simp add: norm_val_def s_def a_def b_def EA_def)
qed

lemma inv_sqrt2_64:
  "ddiv (Fin 1) M_SQRT2 = Fin inv_sqrt2_64"
  "\<bar>inv_sqrt2_64 - 1 / sqrt 2\<bar> \<le> 2 * eps + eta"
  "7 / 10 \<le> inv_sqrt2_64" "inv_sqrt2_64 \<le> 3 / 4"
proof -
  have s0: "0 < sqrt2_64" "sqrt2_64 \<noteq> 0" using sqrt2_64_range by linarith+
  have z: "2 / 3 \<le> 1 / sqrt2_64" "1 / sqrt2_64 \<le> 3 / 4" "1 / sqrt2_64 + 1 / 100 \<le> 3 / 4"
          "7 / 10 + 1 / 1000 \<le> 1 / sqrt2_64"
    by (simp_all add: sqrt2_64_def)
  have "\<bar>1 / sqrt2_64\<bar> < overflow_at"
    using z by (simp add: overflow_at_def)
  then show "ddiv (Fin 1) M_SQRT2 = Fin inv_sqrt2_64"
    using s0 by (simp add: M_SQRT2_def inv_sqrt2_64_def to_double_Fin)
  have r: "\<bar>inv_sqrt2_64 - 1 / sqrt2_64\<bar> \<le> eps * \<bar>1 / sqrt2_64\<bar> + eta"
    unfolding inv_sqrt2_64_def by (rule rnd_err)
  have "eps * \<bar>1 / sqrt2_64\<bar> \<le> eps * 1"
    using z eps_bounds by (intro mult_left_mono) simp_all
  then have e: "eps * \<bar>1 / sqrt2_64\<bar> \<le> eps" by simp
  from r e sqrt2_64_close show "\<bar>inv_sqrt2_64 - 1 / sqrt 2\<bar> \<le> 2 * eps + eta"
    by linarith
  have small: "eps + eta \<le> 1 / 1000"
    by (simp add: eps_def eta_def)
  from r e z small show "7 / 10 \<le> inv_sqrt2_64" by linarith
  from r e z small show "inv_sqrt2_64 \<le> 3 / 4" by linarith
qed

lemma rnd_1: "rnd 1 = 1"
proof -
  have "expo 1 = 0" by (simp add: expo_def)
  then have u: "ulp 1 = 1 / 2 ^ 52" by (simp add: ulp_def two_powr_m52)
  have "round_even (2 ^ 52) = 2 ^ 52"
  proof -
    have "\<lfloor>(2::real) ^ 52\<rfloor> = 2 ^ 52"
      by (metis floor_of_int of_int_numeral of_int_power)
    then show ?thesis by (simp add: round_even_def)
  qed
  then show ?thesis by (simp add: rnd_def u)
qed

lemma to_double_simps: "to_double 0 = Fin 0" "to_double 1 = Fin 1"
  by (simp_all add: to_double_def overflow_at_def rnd_0 rnd_1)

lemma dneg_dneg: "dneg (dneg x) = x"
  by (cases x) simp_all

lemma small_errors: "6 * eps + 4 * eta \<le> 1 / 1000" "20 * eps + 10 * eta \<le> 1 / 1000"
  by (simp_all add: eps_def eta_def)

text \<open>The draw on components of modulus at most 1, away from the threshold.\<close>

lemma bernoulli_norm:
  assumes "\<bar>x\<bar> \<le> 1" "\<bar>y\<bar> \<le> 1"
  shows "u + 1 / 100 \<le> x * x + y * y
           \<Longrightarrow> bernoulli (dadd (dmul (Fin x) (Fin x)) (dmul (Fin y) (Fin y))) u"
    and "x * x + y * y + 1 / 100 \<le> u
           \<Longrightarrow> \<not> bernoulli (dadd (dmul (Fin x) (Fin x)) (dmul (Fin y) (Fin y))) u"
proof -
  have one: "(1::real) \<le> 2 ^ 500" by simp
  have r: "\<bar>x\<bar> \<le> 2 ^ 500" "\<bar>y\<bar> \<le> 2 ^ 500"
    using assms one by linarith+
  define n where "n = x * x + y * y"
  have "x * x = \<bar>x\<bar> * \<bar>x\<bar>" "y * y = \<bar>y\<bar> * \<bar>y\<bar>"
    by (simp_all add: abs_mult [symmetric])
  moreover have "\<bar>x\<bar> * \<bar>x\<bar> \<le> 1 * 1" "\<bar>y\<bar> * \<bar>y\<bar> \<le> 1 * 1"
    using assms by (intro mult_mono; simp)+
  ultimately have n2: "0 \<le> n" "n \<le> 2"
    by (simp_all add: n_def)
  define EN where "EN = eps * n"
  have "eps * n \<le> eps * 2"
    using n2 eps_bounds by (intro mult_left_mono) simp_all
  then have en: "EN \<le> 2 * eps" by (simp add: EN_def)
  have b: "\<bar>norm_val x y - n\<bar> \<le> 3 * EN + 4 * eta"
    using norm_q_finite(2) [OF r] by (simp add: n_def EN_def)
  have f: "dadd (dmul (Fin x) (Fin x)) (dmul (Fin y) (Fin y)) = Fin (norm_val x y)"
    using norm_q_finite(1) [OF r] by (simp add: norm_q_def)
  show "bernoulli (dadd (dmul (Fin x) (Fin x)) (dmul (Fin y) (Fin y))) u"
    if "u + 1 / 100 \<le> x * x + y * y"
    using that b en small_errors(1) unfolding f bernoulli_def n_def by (simp; linarith)
  show "\<not> bernoulli (dadd (dmul (Fin x) (Fin x)) (dmul (Fin y) (Fin y))) u"
    if "x * x + y * y + 1 / 100 \<le> u"
    using that b en small_errors(1) unfolding f bernoulli_def n_def by (simp; linarith)
qed

lemma inv_sqrt2_64_square: "49 / 100 \<le> inv_sqrt2_64 * inv_sqrt2_64"
proof -
  have "(7 / 10) * (7 / 10) \<le> inv_sqrt2_64 * inv_sqrt2_64"
    using inv_sqrt2_64(3) by (intro mult_mono) simp_all
  then show ?thesis by simp
qed

text \<open>One Hadamard step on the components (1, 0).\<close>

lemma hadamard_basis:
  "ddiv (dadd (Fin 1) (Fin 0)) M_SQRT2 = Fin inv_sqrt2_64"
  "ddiv (dsub (Fin 1) (Fin 0)) M_SQRT2 = Fin inv_sqrt2_64"
  "ddiv (dadd (Fin 0) (Fin 0)) M_SQRT2 = Fin 0"
  "ddiv (dsub (Fin 0) (Fin 0)) M_SQRT2 = Fin 0"
proof -
  have s0: "sqrt2_64 \<noteq> 0" using sqrt2_64_range by linarith
  have z: "ddiv (Fin 0) M_SQRT2 = Fin 0"
    using s0 by (simp add: M_SQRT2_def to_double_simps)
  show "ddiv (dadd (Fin 1) (Fin 0)) M_SQRT2 = Fin inv_sqrt2_64"
    by (simp add: to_double_simps inv_sqrt2_64(1))
  show "ddiv (dsub (Fin 1) (Fin 0)) M_SQRT2 = Fin inv_sqrt2_64"
    by (simp add: dsub_def to_double_simps inv_sqrt2_64(1))
  show "ddiv (dadd (Fin 0) (Fin 0)) M_SQRT2 = Fin 0"
    by (simp add: to_double_simps z)
  show "ddiv (dsub (Fin 0) (Fin 0)) M_SQRT2 = Fin 0"
    by (simp add: dsub_def to_double_simps z)
qed

text \<open>Two Hadamard steps on components of the size of the largest power of two.\<close>

lemma to_double_PInf: "overflow_at \<le> x \<Longrightarrow> to_double x = PInf"
  by (simp add: to_double_def)

lemma dsub_self: "dsub (Fin a) (Fin a) = Fin 0"
  by (simp add: dsub_def to_double_simps)

lemma hadamard_overflow:
  "ddiv (dadd (Fin (2 ^ 1023)) (Fin (2 ^ 1023))) M_SQRT2 = PInf"
  "ddiv (dsub (Fin (2 ^ 1023)) (Fin (2 ^ 1023))) M_SQRT2 = Fin 0"
  "ddiv (dadd PInf (Fin 0)) M_SQRT2 = PInf"
  "ddiv (dsub PInf (Fin 0)) M_SQRT2 = PInf"
proof -
  have s0: "sqrt2_64 \<noteq> 0" "0 \<le> sqrt2_64" using sqrt2_64_range by linarith+
  have p: "ddiv PInf M_SQRT2 = PInf"
    using s0 by (simp add: M_SQRT2_def)
  have z: "ddiv (Fin 0) M_SQRT2 = Fin 0"
    using s0 by (simp add: M_SQRT2_def to_double_simps)
  have "overflow_at \<le> 2 ^ 1023 + 2 ^ 1023"
    by (simp add: overflow_at_def)
  then have o: "to_double (2 ^ 1023 + 2 ^ 1023) = PInf"
    by (rule to_double_PInf)
  have d: "dadd (Fin (2 ^ 1023)) (Fin (2 ^ 1023)) = to_double (2 ^ 1023 + 2 ^ 1023)"
    by (simp only: dadd.simps)
  show "ddiv (dadd (Fin (2 ^ 1023)) (Fin (2 ^ 1023))) M_SQRT2 = PInf"
    unfolding d o by (rule p)
  show "ddiv (dsub (Fin (2 ^ 1023)) (Fin (2 ^ 1023))) M_SQRT2 = Fin 0"
    unfolding dsub_self by (rule z)
  have i: "dadd PInf (Fin 0) = PInf" "dsub PInf (Fin 0) = PInf"
    by (simp_all add: dsub_def)
  show "ddiv (dadd PInf (Fin 0)) M_SQRT2 = PInf"
    unfolding i by (rule p)
  show "ddiv (dsub PInf (Fin 0)) M_SQRT2 = PInf"
    unfolding i by (rule p)
qed

text \<open>The binary64 values next to 3/5 and 4/5.\<close>

lemma ex_amp:
  "to_double (3 / 5) = Fin (rnd (3 / 5))" "to_double (4 / 5) = Fin (rnd (4 / 5))"
  "3 / 4 \<le> rnd (4 / 5)" "rnd (4 / 5) \<le> 1"
proof -
  have o: "\<bar>3 / 5 :: real\<bar> < overflow_at" "\<bar>4 / 5 :: real\<bar> < overflow_at"
    by (simp_all add: overflow_at_def)
  show "to_double (3 / 5) = Fin (rnd (3 / 5))" by (rule to_double_Fin [OF o(1)])
  show "to_double (4 / 5) = Fin (rnd (4 / 5))" by (rule to_double_Fin [OF o(2)])
  have "\<bar>rnd (4 / 5) - 4 / 5\<bar> \<le> eps * \<bar>4 / 5\<bar> + eta" by (rule rnd_err)
  moreover have "eps * \<bar>4 / 5\<bar> + eta \<le> 1 / 1000"
    using small_errors(1) eps_bounds eta_pos by simp
  ultimately show "3 / 4 \<le> rnd (4 / 5)" "rnd (4 / 5) \<le> 1" by linarith+
qed

lemma ex_amp_draw:
  "bernoulli (dadd (dmul (to_double (4 / 5)) (to_double (4 / 5))) (dmul (Fin 0) (Fin 0))) (1 / 2)"
proof -
  have r: "\<bar>rnd (4 / 5)\<bar> \<le> 1" "\<bar>0::real\<bar> \<le> 1"
    using ex_amp(3,4) by simp_all
  have "3 / 4 * (3 / 4) \<le> rnd (4 / 5) * rnd (4 / 5)"
    using ex_amp(3) by (intro mult_mono) simp_all
  then have "1 / 2 + 1 / 100 \<le> rnd (4 / 5) * rnd (4 / 5) + 0 * 0" by simp
  then show ?thesis
    unfolding ex_amp(2) by (rule bernoulli_norm(1) [OF r])
qed

lemma close_to_Fin: "close_to tol (Fin v) x \<longleftrightarrow> \<bar>v - x\<bar> \<le> tol"
  by simp

subsection \<open>Exact binary64 values\<close>

text \<open>Rounding of a value between \<open>1 / 2 ^ k\<close> and \<open>2 / 2 ^ k\<close>: the nearest multiple of
  \<open>1 / 2 ^ (k + 52)\<close>.\<close>

lemma round_even_eqI:
  assumes "\<bar>y - of_int n\<bar> < 1 / 2"
  shows "round_even y = n"
proof (cases "of_int n \<le> y")
  case True
  then have f: "\<lfloor>y\<rfloor> = n" using assms by (intro floor_unique) linarith+
  show ?thesis unfolding round_even_def f using assms True by auto
next
  case False
  then have f: "\<lfloor>y\<rfloor> = n - 1" using assms by (intro floor_unique) (simp, linarith)+
  show ?thesis unfolding round_even_def f using assms False by auto
qed

lemma rnd_low:
  fixes k :: nat
  assumes k: "k \<le> 1022"
    and lo: "1 / 2 ^ k \<le> \<bar>x\<bar>" and hi: "\<bar>x\<bar> < 2 / 2 ^ k"
    and n: "\<bar>x * 2 ^ (k + 52) - of_int n\<bar> < 1 / 2"
  shows "rnd x = of_int n / 2 ^ (k + 52)"
proof -
  have pos: "0 < \<bar>x\<bar>"
  proof -
    have "(0::real) < 1 / 2 ^ k" by simp
    with lo show ?thesis by linarith
  qed
  then have x0: "x \<noteq> 0" by auto
  have p: "(2::real) powr (- real k) = 1 / 2 ^ k"
    by (simp add: powr_minus powr_realpow inverse_eq_divide)
  have "(2::real) powr (1 - real k) = 2 powr 1 / 2 powr (real k)"
    by (rule powr_diff)
  then have p1: "(2::real) powr (1 - real k) = 2 / 2 ^ k"
    by (simp add: powr_realpow)
  have "- real k \<le> log 2 \<bar>x\<bar>"
    using lo pos by (simp add: le_log_iff p)
  moreover have "log 2 \<bar>x\<bar> < 1 - real k"
    using hi pos by (simp add: log_less_iff p1)
  ultimately have "\<lfloor>log 2 \<bar>x\<bar>\<rfloor> = - int k"
    by (intro floor_unique) simp_all
  then have e: "expo x = - int k"
    using k x0 by (simp add: expo_def)
  have "(2::real) powr (- real k - 52) = 2 powr (- real k) / 2 powr 52"
    by (rule powr_diff)
  also have "(2::real) powr 52 = 2 ^ 52" by (rule powr_numeral) simp
  finally have "(2::real) powr (- real k - 52) = 1 / 2 ^ (k + 52)"
    unfolding p by (simp add: power_add)
  then have u: "ulp x = 1 / 2 ^ (k + 52)"
    by (simp add: ulp_def e)
  have "round_even (x * 2 ^ (k + 52)) = n" by (rule round_even_eqI [OF n])
  then show ?thesis by (simp add: rnd_def u)
qed

text \<open>\<^verbatim>\<open>1.0 / M_SQRT2\<close> is 0.7071067811865475, the binary64 number below \<open>1 / sqrt 2\<close>.\<close>

lemma inv_sqrt2_64_value: "inv_sqrt2_64 = 6369051672525772 / 2 ^ 53"
  unfolding inv_sqrt2_64_def
  using rnd_low [where k = 1 and x = "1 / sqrt2_64" and n = 6369051672525772]
  by (simp add: sqrt2_64_def)

lemma to_double_small: "\<bar>x\<bar> \<le> 2 \<Longrightarrow> to_double x = Fin (rnd x)"
proof -
  assume "\<bar>x\<bar> \<le> 2"
  moreover have "(2::real) < 2 ^ 1010" by simp
  ultimately have "\<bar>x\<bar> < overflow_at" using overflow_at_big by linarith
  then show ?thesis by (rule to_double_Fin)
qed

text \<open>The doubles 0.6 and 0.8.\<close>

lemma ex_amp_values:
  "to_double (3 / 5) = Fin (5404319552844595 / 2 ^ 53)"
  "to_double (4 / 5) = Fin (7205759403792794 / 2 ^ 53)"
proof -
  have "rnd (3 / 5) = 5404319552844595 / 2 ^ 53"
    using rnd_low [where k = 1 and x = "3 / 5" and n = 5404319552844595] by simp
  then show "to_double (3 / 5) = Fin (5404319552844595 / 2 ^ 53)"
    by (simp add: to_double_small)
  have "rnd (4 / 5) = 7205759403792794 / 2 ^ 53"
    using rnd_low [where k = 1 and x = "4 / 5" and n = 7205759403792794] by simp
  then show "to_double (4 / 5) = Fin (7205759403792794 / 2 ^ 53)"
    by (simp add: to_double_small)
qed

text \<open>The second Hadamard step from the components (1, 0): 0.9999999999999999.\<close>

lemma hadamard_back_one:
  "ddiv (dadd (Fin inv_sqrt2_64) (Fin inv_sqrt2_64)) M_SQRT2 = Fin (1 - 1 / 2 ^ 53)"
  "ddiv (dsub (Fin inv_sqrt2_64) (Fin inv_sqrt2_64)) M_SQRT2 = Fin 0"
proof -
  have s0: "sqrt2_64 \<noteq> 0" using sqrt2_64_range by linarith
  have "rnd (inv_sqrt2_64 + inv_sqrt2_64) = 6369051672525772 / 2 ^ 52"
    using rnd_low [where k = 0 and x = "inv_sqrt2_64 + inv_sqrt2_64" and n = 6369051672525772]
    by (simp add: inv_sqrt2_64_value)
  moreover have "\<bar>inv_sqrt2_64 + inv_sqrt2_64\<bar> \<le> 2"
    by (simp add: inv_sqrt2_64_value)
  ultimately have a: "dadd (Fin inv_sqrt2_64) (Fin inv_sqrt2_64) = Fin (6369051672525772 / 2 ^ 52)"
    by (simp add: to_double_small)
  have "rnd (6369051672525772 / 2 ^ 52 / sqrt2_64) = 9007199254740991 / 2 ^ 53"
    using rnd_low [where k = 1 and x = "6369051672525772 / 2 ^ 52 / sqrt2_64"
                      and n = 9007199254740991]
    by (simp add: sqrt2_64_def)
  moreover have "\<bar>6369051672525772 / 2 ^ 52 / sqrt2_64\<bar> \<le> 2"
    by (simp add: sqrt2_64_def)
  ultimately show "ddiv (dadd (Fin inv_sqrt2_64) (Fin inv_sqrt2_64)) M_SQRT2 = Fin (1 - 1 / 2 ^ 53)"
    unfolding a using s0 by (simp add: M_SQRT2_def to_double_small)
  show "ddiv (dsub (Fin inv_sqrt2_64) (Fin inv_sqrt2_64)) M_SQRT2 = Fin 0"
    unfolding dsub_self using s0 by (simp add: M_SQRT2_def to_double_simps)
qed

text \<open>The squared modulus of \<^verbatim>\<open>1.0 / M_SQRT2\<close> is 0.4999999999999999, below the
  square of the real number.\<close>

lemma norm_q_values:
  "norm_q (Fin inv_sqrt2_64) (Fin 0) = Fin (4503599627370495 / 2 ^ 53)"
  "norm_q (Fin (1 / 2)) (Fin (1 / 2)) = Fin (1 / 2)"
  "4503599627370495 / 2 ^ 53 < inv_sqrt2_64 * inv_sqrt2_64"
proof -
  have "rnd (inv_sqrt2_64 * inv_sqrt2_64) = 9007199254740990 / 2 ^ 54"
    using rnd_low [where k = 2 and x = "inv_sqrt2_64 * inv_sqrt2_64" and n = 9007199254740990]
    by (simp add: inv_sqrt2_64_value)
  moreover have "\<bar>inv_sqrt2_64 * inv_sqrt2_64\<bar> \<le> 2"
    by (simp add: inv_sqrt2_64_value)
  ultimately have a: "dmul (Fin inv_sqrt2_64) (Fin inv_sqrt2_64) = Fin (9007199254740990 / 2 ^ 54)"
    by (simp add: to_double_small)
  have b: "dmul (Fin 0) (Fin 0) = Fin 0"
    by (simp add: to_double_simps)
  have "rnd (9007199254740990 / 2 ^ 54) = 9007199254740990 / 2 ^ 54"
    using rnd_low [where k = 2 and x = "9007199254740990 / 2 ^ 54" and n = 9007199254740990]
    by simp
  then show "norm_q (Fin inv_sqrt2_64) (Fin 0) = Fin (4503599627370495 / 2 ^ 53)"
    unfolding norm_q_def a b by (simp add: to_double_small)
  have "rnd (1 / 4) = 1 / 4"
    using rnd_low [where k = 2 and x = "1 / 4" and n = "2 ^ 52"] by simp
  then have c: "dmul (Fin (1 / 2)) (Fin (1 / 2)) = Fin (1 / 4)"
    by (simp add: to_double_small)
  have "rnd (1 / 2) = 1 / 2"
    using rnd_low [where k = 1 and x = "1 / 2" and n = "2 ^ 52"] by simp
  then show "norm_q (Fin (1 / 2)) (Fin (1 / 2)) = Fin (1 / 2)"
    unfolding norm_q_def c by (simp add: to_double_small)
  show "4503599627370495 / 2 ^ 53 < inv_sqrt2_64 * inv_sqrt2_64"
    by (simp add: inv_sqrt2_64_value)
qed

subsection \<open>C strings and \<^verbatim>\<open>strncpy\<close>\<close>

lemma takeWhile_pad:
  assumes "\<forall>c\<in>set xs. c \<noteq> NUL"
  shows "takeWhile (\<lambda>c. c \<noteq> NUL) (xs @ replicate k NUL @ r)
         = xs @ (if k = 0 then takeWhile (\<lambda>c. c \<noteq> NUL) r else [])"
proof -
  have "takeWhile (\<lambda>c. c \<noteq> NUL) (xs @ replicate k NUL @ r)
        = xs @ takeWhile (\<lambda>c. c \<noteq> NUL) (replicate k NUL @ r)"
    using assms by (simp add: takeWhile_append2)
  moreover have "takeWhile (\<lambda>c. c \<noteq> NUL) (replicate k NUL @ r)
        = (if k = 0 then takeWhile (\<lambda>c. c \<noteq> NUL) r else [])"
    by (cases k) simp_all
  ultimately show ?thesis by simp
qed

lemma c_str_no_NUL: "\<forall>c\<in>set (take n (c_str src)). c \<noteq> NUL"
  unfolding c_str_def by (auto dest!: in_set_takeD set_takeWhileD)

lemma c_str_strncpy:
  "c_str (strncpy dst src n) =
     (if length (c_str src) < n then c_str src else take n (c_str src) @ c_str (drop n dst))"
proof -
  have "c_str (strncpy dst src n) = takeWhile (\<lambda>c. c \<noteq> NUL) (take n (c_str src) @ replicate (n - length (c_str src)) NUL @ drop n dst)"
    unfolding strncpy_def by (subst c_str_def) (rule refl)
  also have "\<dots> = take n (c_str src) @ (if n - length (c_str src) = 0 then takeWhile (\<lambda>c. c \<noteq> NUL) (drop n dst) else [])"
    by (rule takeWhile_pad [OF c_str_no_NUL])
  also have "\<dots> = (if length (c_str src) < n then c_str src else take n (c_str src) @ c_str (drop n dst))"
    by (auto simp: c_str_def[of "drop n dst"])
  finally show ?thesis .
qed

lemma c_str_strncpy_slot:
  assumes "slot_ok dst"
  shows "c_str (strncpy dst src 63) = take 63 (c_str src)"
proof -
  have "drop 63 dst = [NUL]" using assms unfolding slot_ok_def
    by (metis Cons_nth_drop_Suc drop_all lessI numeral_eq_Suc order_refl pred_numeral_simps(2) semiring_norm(26,27))
  then show ?thesis by (simp add: c_str_strncpy c_str_def[of "[NUL]"])
qed

lemma length_strncpy: "length (strncpy dst src n) = n + (length dst - n)"
  by (simp add: strncpy_def)

lemma strncpy_nth_beyond:
  assumes "n \<le> i" "i < length dst"
  shows "strncpy dst src n ! i = dst ! i"
proof -
  have "length (take n (c_str src) @ replicate (n - length (c_str src)) NUL) = n"
    by simp
  then have "strncpy dst src n ! i = drop n dst ! (i - n)"
    unfolding strncpy_def using assms
    by (metis append.assoc nth_append not_le)
  then show ?thesis using assms by simp
qed

lemma slot_ok_strncpy: "slot_ok dst \<Longrightarrow> slot_ok (strncpy dst src 63)"
  by (simp add: slot_ok_def length_strncpy strncpy_nth_beyond)

lemma slot_ok_zero: "slot_ok (replicate 64 NUL)"
  by (simp add: slot_ok_def)

lemma c_str_Nil: "c_str [] = []"
  by (simp add: c_str_def)

lemma c_str_Cons: "c_str (x # xs) = (if x = NUL then [] else x # c_str xs)"
  by (simp add: c_str_def)

subsection \<open>The propagation loop\<close>

lemma shm_open_poke [simp]: "shm_open (poke_measured p r w) nm = shm_open w nm"
  by (simp add: shm_open_def poke_measured_def)

lemma mmap_seg_poke [simp]: "mmap_seg (poke_measured p r w) fd = mmap_seg w fd"
  by (simp add: mmap_seg_def poke_measured_def)

lemma open_peer_poke [simp]: "open_peer (poke_measured p r w) nm = open_peer w nm"
  by (simp add: open_peer_def split: option.splits)

lemma link_count_poke [simp]:
  "link_count (heap (poke_measured p r w) a) = link_count (heap w a)"
  by (simp add: poke_measured_def)

lemma link_at_poke [simp]:
  "link_at (heap (poke_measured p r w) a) i = link_at (heap w a) i"
  by (simp add: poke_measured_def link_at_def)

lemma notified_from_poke [simp]:
  "notified_from i q (poke_measured p r w) = notified_from i q w"
  by (simp add: notified_from_def)

lemma notified_from_step:
  assumes "i < unat (link_count (heap w (state q)))"
  shows "notified_from i q w =
           (case open_peer w (link_at (heap w (state q)) i) of
              None \<Rightarrow> notified_from (Suc i) q w
            | Some p \<Rightarrow> p # notified_from (Suc i) q w)"
  using assms
  by (simp add: notified_from_def upt_conv_Cons List.map_filter_simps split: option.splits)

lemma notified_from_done:
  assumes "\<not> i < unat (link_count (heap w (state q)))"
  shows "notified_from i q w = []"
  using assms by (simp add: notified_from_def List.map_filter_simps)

lemma propagate_from_fold:
  "propagate_from i result q w
     = fold (\<lambda>p. poke_measured p result) (notified_from i q w) w"
proof (induction i result q w rule: propagate_from.induct)
  case (1 i result q w)
  show ?case
  proof (cases "i < unat (link_count (heap w (state q)))")
    case False
    then show ?thesis
      by (subst propagate_from.simps) (simp add: notified_from_done)
  next
    case True
    show ?thesis
    proof (cases "shm_open w (link_at (heap w (state q)) i)")
      case None
      with True "1.IH"(1) show ?thesis
        by (subst propagate_from.simps) (simp add: notified_from_step open_peer_def)
    next
      case (Some fd)
      show ?thesis
      proof (cases "mmap_seg w fd")
        case None
        with True Some "1.IH"(2) show ?thesis
          by (subst propagate_from.simps) (simp add: notified_from_step open_peer_def)
      next
        case (Some p)
        with True \<open>shm_open w (link_at (heap w (state q)) i) = Some fd\<close> "1.IH"(3) show ?thesis
          by (subst propagate_from.simps) (simp add: notified_from_step open_peer_def)
      qed
    qed
  qed
qed

lemma heap_fold_poke:
  "heap (fold (\<lambda>p. poke_measured p r) ps w) a
     = (if a \<in> set ps then (heap w a)\<lparr>measured := r\<rparr> else heap w a)"
  by (induction ps arbitrary: w) (auto simp: poke_measured_def)

lemma frame_fold_poke:
  "names (fold (\<lambda>p. poke_measured p r) ps w) = names w
   \<and> next_seg (fold (\<lambda>p. poke_measured p r) ps w) = next_seg w
   \<and> open_denied (fold (\<lambda>p. poke_measured p r) ps w) = open_denied w
   \<and> mmap_fails (fold (\<lambda>p. poke_measured p r) ps w) = mmap_fails w"
  by (induction ps arbitrary: w) (auto simp: poke_measured_def)

lemma heap_propagateToLinks:
  "heap (propagateToLinks r q w) a
     = (if a \<in> set (notified q w) then (heap w a)\<lparr>measured := r\<rparr> else heap w a)"
  by (simp add: propagateToLinks_def notified_def propagate_from_fold heap_fold_poke)

lemma frame_propagateToLinks:
  "names (propagateToLinks r q w) = names w
   \<and> next_seg (propagateToLinks r q w) = next_seg w
   \<and> open_denied (propagateToLinks r q w) = open_denied w
   \<and> mmap_fails (propagateToLinks r q w) = mmap_fails w"
  by (simp add: propagateToLinks_def propagate_from_fold frame_fold_poke)

lemma heap_on_state: "heap (on_state q f w) a = (if a = state q then f (heap w a) else heap w a)"
  by (simp add: on_state_def)

lemma frame_on_state:
  "names (on_state q f w) = names w \<and> next_seg (on_state q f w) = next_seg w
   \<and> open_denied (on_state q f w) = open_denied w \<and> mmap_fails (on_state q f w) = mmap_fails w"
  by (simp add: on_state_def)

lemma open_peer_on_state [simp]: "open_peer (on_state q f w) nm = open_peer w nm"
  by (simp add: open_peer_def shm_open_def mmap_seg_def on_state_def split: option.splits)

lemma notified_on_state:
  assumes "links (f (heap w (state q))) = links (heap w (state q))"
      and "link_count (f (heap w (state q))) = link_count (heap w (state q))"
  shows "notified q (on_state q f w) = notified q w"
proof -
  have "link_at (heap (on_state q f w) (state q)) j = link_at (heap w (state q)) j" for j
    using assms by (simp add: link_at_def heap_on_state)
  then show ?thesis
    using assms by (simp add: notified_def notified_from_def heap_on_state)
qed

subsection \<open>The link table after \<^verbatim>\<open>entangle\<close>\<close>

lemma on_state_on_state: "on_state q f (on_state q g w) = on_state q (\<lambda>s. f (g s)) w"
  by (simp add: on_state_def)

lemma on_state_id: "on_state q (\<lambda>s. s) w = w"
  by (simp add: on_state_def)

lemma fold_on_state_links:
  "fold (\<lambda>i. on_state q
           (\<lambda>s. s\<lparr>links := (links s)[i := strncpy (links s ! i) (peers ! i) 63]\<rparr>)) js w
     = on_state q (\<lambda>s. s\<lparr>links := copy_links peers js (links s)\<rparr>) w"
proof (induction js arbitrary: w)
  case Nil
  show ?case by (simp add: copy_links_def on_state_id)
next
  case (Cons i js)
  show ?case
    by (simp add: Cons.IH on_state_on_state) (simp add: copy_links_def)
qed

lemma heap_entangle:
  "heap (entangle q peers w) a =
     (if a = state q
      then (heap w a)\<lparr>links := copy_links peers [0..<min (length peers) 4] (links (heap w a)),
                       link_count := of_nat (min (length peers) 4)\<rparr>
      else heap w a)"
  by (simp add: entangle_def Let_def fold_on_state_links on_state_on_state heap_on_state)

lemma frame_entangle:
  "names (entangle q peers w) = names w \<and> next_seg (entangle q peers w) = next_seg w
   \<and> open_denied (entangle q peers w) = open_denied w
   \<and> mmap_fails (entangle q peers w) = mmap_fails w"
  by (simp add: entangle_def Let_def fold_on_state_links on_state_on_state frame_on_state)

lemma length_copy_links [simp]: "length (copy_links peers js ls) = length ls"
  unfolding copy_links_def by (induction js arbitrary: ls) simp_all









subsection \<open>What each operation writes\<close>

lemma heap_setState:
  "heap (setState q ar ai br bi now w) a =
     (if a = state q
      then (heap w a)\<lparr>alpha_real := ar, alpha_imag := ai, beta_real := br, beta_imag := bi,
                       measured := 2, created_at := now,
                       decohere_timeout_ms := decohere_timeout q\<rparr>
      else heap w a)"
  by (simp add: setState_def heap_on_state updateTimestamp_def)

lemma resetLinks_shape: "\<exists>L. resetLinks s = s\<lparr>links := L, link_count := 0\<rparr>"
proof -
  have "\<exists>L. fold (\<lambda>i t. t\<lparr>links := (links t)[i := (links t ! i)[0 := NUL]]\<rparr>) js t
              = t\<lparr>links := L\<rparr>" for js and t :: QubitState
  proof (induction js arbitrary: t)
    case Nil
    have "t = t\<lparr>links := links t\<rparr>" by simp
    then show ?case by (metis fold_simps(1))
  next
    case (Cons i js)
    obtain L where
      "fold (\<lambda>i t. t\<lparr>links := (links t)[i := (links t ! i)[0 := NUL]]\<rparr>) js
         (t\<lparr>links := (links t)[i := (links t ! i)[0 := NUL]]\<rparr>)
       = (t\<lparr>links := (links t)[i := (links t ! i)[0 := NUL]]\<rparr>)\<lparr>links := L\<rparr>"
      using Cons.IH by blast
    then show ?case by (intro exI [of _ L]) simp
  qed
  then obtain L where
    "fold (\<lambda>i t. t\<lparr>links := (links t)[i := (links t ! i)[0 := NUL]]\<rparr>) [0..<4]
       (s\<lparr>link_count := 0\<rparr>) = (s\<lparr>link_count := 0\<rparr>)\<lparr>links := L\<rparr>"
    by blast
  then show ?thesis
    unfolding resetLinks_def by (intro exI [of _ L]) simp
qed

lemma heap_initSuperposition:
  "\<exists>L. heap (initSuperposition q now w) a =
     (if a = state q
      then (heap w a)\<lparr>alpha_real := ddiv (Fin 1) M_SQRT2, alpha_imag := Fin 0, beta_real := ddiv (Fin 1) M_SQRT2,
                       beta_imag := Fin 0, measured := 2, links := L, link_count := 0,
                       created_at := now, decohere_timeout_ms := decohere_timeout q\<rparr>
      else heap w a)"
proof -
  obtain L where L: "resetLinks ((heap w (state q))\<lparr>alpha_real := ddiv (Fin 1) M_SQRT2, alpha_imag := Fin 0,
        beta_real := ddiv (Fin 1) M_SQRT2, beta_imag := Fin 0, measured := 2\<rparr>)
      = ((heap w (state q))\<lparr>alpha_real := ddiv (Fin 1) M_SQRT2, alpha_imag := Fin 0,
        beta_real := ddiv (Fin 1) M_SQRT2, beta_imag := Fin 0, measured := 2\<rparr>)\<lparr>links := L, link_count := 0\<rparr>"
    using resetLinks_shape by blast
  show ?thesis
    by (rule exI [of _ L])
       (simp add: initSuperposition_def heap_on_state updateTimestamp_def L)
qed

lemma heap_applyGate_other:
  "a \<noteq> state q \<Longrightarrow> heap (snd (applyGate q g now w)) a = heap w a"
  by (simp add: applyGate_def Let_def heap_on_state split: prod.splits if_splits)

lemma measured_applyGate:
  "measured (heap (snd (applyGate q g now w)) a) = measured (heap w a)"
  by (simp add: applyGate_def Let_def heap_on_state updateTimestamp_def)

lemma applyGate_collapsed:
  "measured (heap w (state q)) \<noteq> 2 \<Longrightarrow> applyGate q g now w = ([], w)"
  by (simp add: applyGate_def)

text \<open>The amplitudes after one and after two Hadamard gates.\<close>

lemma applyGate_H:
  assumes "measured (heap w (state q)) = 2"
  shows "amps (heap (snd (applyGate q (CHR ''H'') t w)) (state q))
           = (ddiv (dadd (alpha_real (heap w (state q))) (beta_real (heap w (state q)))) M_SQRT2,
              ddiv (dadd (alpha_imag (heap w (state q))) (beta_imag (heap w (state q)))) M_SQRT2,
              ddiv (dsub (alpha_real (heap w (state q))) (beta_real (heap w (state q)))) M_SQRT2,
              ddiv (dsub (alpha_imag (heap w (state q))) (beta_imag (heap w (state q)))) M_SQRT2)"
    and "measured (heap (snd (applyGate q (CHR ''H'') t w)) (state q)) = 2"
  using assms
  by (simp_all add: applyGate_def Let_def heap_on_state updateTimestamp_def amps_def)

lemma applyGate_H_twice:
  assumes "measured (heap w (state q)) = 2"
    and "amps (heap w (state q)) = (ar, ai, br, bi)"
  shows "amps (heap (snd (applyGate q (CHR ''H'') t2 (snd (applyGate q (CHR ''H'') t1 w))))
                 (state q))
           = (ddiv (dadd (ddiv (dadd ar br) M_SQRT2) (ddiv (dsub ar br) M_SQRT2)) M_SQRT2,
              ddiv (dadd (ddiv (dadd ai bi) M_SQRT2) (ddiv (dsub ai bi) M_SQRT2)) M_SQRT2,
              ddiv (dsub (ddiv (dadd ar br) M_SQRT2) (ddiv (dsub ar br) M_SQRT2)) M_SQRT2,
              ddiv (dsub (ddiv (dadd ai bi) M_SQRT2) (ddiv (dsub ai bi) M_SQRT2)) M_SQRT2)"
proof -
  have f: "alpha_real (heap w (state q)) = ar" "alpha_imag (heap w (state q)) = ai"
          "beta_real (heap w (state q)) = br" "beta_imag (heap w (state q)) = bi"
    using assms(2) by (simp_all add: amps_def)
  have a1: "amps (heap (snd (applyGate q (CHR ''H'') t1 w)) (state q))
           = (ddiv (dadd ar br) M_SQRT2, ddiv (dadd ai bi) M_SQRT2,
              ddiv (dsub ar br) M_SQRT2, ddiv (dsub ai bi) M_SQRT2)"
    using applyGate_H(1) [OF assms(1), of t1] by (simp only: f)
  then have g: "alpha_real (heap (snd (applyGate q (CHR ''H'') t1 w)) (state q))
                  = ddiv (dadd ar br) M_SQRT2"
               "alpha_imag (heap (snd (applyGate q (CHR ''H'') t1 w)) (state q))
                  = ddiv (dadd ai bi) M_SQRT2"
               "beta_real (heap (snd (applyGate q (CHR ''H'') t1 w)) (state q))
                  = ddiv (dsub ar br) M_SQRT2"
               "beta_imag (heap (snd (applyGate q (CHR ''H'') t1 w)) (state q))
                  = ddiv (dsub ai bi) M_SQRT2"
    by (simp_all add: amps_def)
  show ?thesis
    using applyGate_H(1) [OF applyGate_H(2) [OF assms(1), of t1], of t2]
    by (simp only: g)
qed

lemma close_to_hadamard_twice:
  assumes "\<bar>a\<bar> \<le> 2 ^ 1000" "\<bar>b\<bar> \<le> 2 ^ 1000"
  shows "close_to (20 * (eps * (\<bar>a\<bar> + \<bar>b\<bar>)) + 10 * eta)
           (ddiv (dadd (ddiv (dadd (Fin a) (Fin b)) M_SQRT2)
                       (ddiv (dsub (Fin a) (Fin b)) M_SQRT2)) M_SQRT2) a"
    and "close_to (20 * (eps * (\<bar>a\<bar> + \<bar>b\<bar>)) + 10 * eta)
           (ddiv (dsub (ddiv (dadd (Fin a) (Fin b)) M_SQRT2)
                       (ddiv (dsub (Fin a) (Fin b)) M_SQRT2)) M_SQRT2) b"
proof -
  from hadamard_twice_scalar [OF assms] obtain a2 b2 where
    h: "ddiv (dadd (ddiv (dadd (Fin a) (Fin b)) M_SQRT2)
                      (ddiv (dsub (Fin a) (Fin b)) M_SQRT2)) M_SQRT2 = Fin a2"
       "ddiv (dsub (ddiv (dadd (Fin a) (Fin b)) M_SQRT2)
                      (ddiv (dsub (Fin a) (Fin b)) M_SQRT2)) M_SQRT2 = Fin b2"
       "\<bar>a2 - a\<bar> \<le> 20 * (eps * (\<bar>a\<bar> + \<bar>b\<bar>)) + 10 * eta"
       "\<bar>b2 - b\<bar> \<le> 20 * (eps * (\<bar>a\<bar> + \<bar>b\<bar>)) + 10 * eta"
    by blast
  show "close_to (20 * (eps * (\<bar>a\<bar> + \<bar>b\<bar>)) + 10 * eta)
           (ddiv (dadd (ddiv (dadd (Fin a) (Fin b)) M_SQRT2)
                       (ddiv (dsub (Fin a) (Fin b)) M_SQRT2)) M_SQRT2) a"
    unfolding h(1) close_to_Fin by (rule h(3))
  show "close_to (20 * (eps * (\<bar>a\<bar> + \<bar>b\<bar>)) + 10 * eta)
           (ddiv (dsub (ddiv (dadd (Fin a) (Fin b)) M_SQRT2)
                       (ddiv (dsub (Fin a) (Fin b)) M_SQRT2)) M_SQRT2) b"
    unfolding h(2) close_to_Fin by (rule h(4))
qed

subsection \<open>The collapsed-amplitudes property under the operations\<close>

lemma collapsed_amps_applyGate:
  assumes "collapsed_amps (heap w a)"
  shows "collapsed_amps (heap (snd (applyGate q g now w)) a)"
proof (cases "a = state q \<and> measured (heap w (state q)) = 2")
  case True
  then have "measured (heap (snd (applyGate q g now w)) a) = 2"
    by (simp add: measured_applyGate)
  then show ?thesis by (simp add: collapsed_amps_def)
next
  case False
  then have "heap (snd (applyGate q g now w)) a = heap w a"
    by (auto simp: heap_applyGate_other applyGate_collapsed)
  with assms show ?thesis by simp
qed

lemma collapsed_amps_entangle:
  assumes "collapsed_amps (heap w a)"
  shows "collapsed_amps (heap (entangle q peers w) a)"
  using assms by (auto simp: heap_entangle collapsed_amps_def amps_def)

lemma collapsed_amps_setState:
  "collapsed_amps (heap w a) \<Longrightarrow> collapsed_amps (heap (setState q ar ai br bi now w) a)"
  by (simp add: heap_setState collapsed_amps_def amps_def)

lemma collapsed_amps_initSuperposition:
  assumes "collapsed_amps (heap w a)"
  shows "collapsed_amps (heap (initSuperposition q now w) a)"
proof -
  obtain L where "heap (initSuperposition q now w) a =
     (if a = state q
      then (heap w a)\<lparr>alpha_real := ddiv (Fin 1) M_SQRT2, alpha_imag := Fin 0, beta_real := ddiv (Fin 1) M_SQRT2,
                       beta_imag := Fin 0, measured := 2, links := L, link_count := 0,
                       created_at := now, decohere_timeout_ms := decohere_timeout q\<rparr>
      else heap w a)"
    using heap_initSuperposition by blast
  with assms show ?thesis by (simp add: collapsed_amps_def amps_def)
qed

lemma heap_measure_qubit:
  assumes "measured (heap w (state q)) = 2"
  shows "heap (snd (measure_qubit q u now w)) a =
     (if a = state q
      then (heap w a)\<lparr>alpha_real := (if fst (measure_qubit q u now w) = 0 then Fin 1 else Fin 0),
                       alpha_imag := Fin 0,
                       beta_real := (if fst (measure_qubit q u now w) = 0 then Fin 0 else Fin 1),
                       beta_imag := Fin 0,
                       measured := fst (measure_qubit q u now w),
                       created_at := now,
                       decohere_timeout_ms := decohere_timeout q\<rparr>
      else if a \<in> set (notified q w)
           then (heap w a)\<lparr>measured := fst (measure_qubit q u now w)\<rparr>
           else heap w a)"
proof (cases "bernoulli (norm_q (beta_real (heap w (state q))) (beta_imag (heap w (state q)))) u")
  case True
  with assms show ?thesis
    by (simp add: measure_qubit_def Let_def heap_on_state heap_propagateToLinks
        notified_on_state updateTimestamp_def)
next
  case False
  with assms show ?thesis
    by (simp add: measure_qubit_def Let_def heap_on_state heap_propagateToLinks
        notified_on_state updateTimestamp_def)
qed

lemma fst_measure_qubit:
  assumes "measured (heap w (state q)) = 2"
  shows "fst (measure_qubit q u now w)
           = (if bernoulli (dadd (dmul (beta_real (heap w (state q)))
                                       (beta_real (heap w (state q))))
                                 (dmul (beta_imag (heap w (state q)))
                                       (beta_imag (heap w (state q))))) u
              then 1 else 0)"
  using assms by (simp add: measure_qubit_def Let_def norm_q_def)

lemma collapsed_amps_measure:
  assumes "collapsed_amps (heap w a)" "a = state q \<or> a \<notin> set (notified q w)"
  shows "collapsed_amps (heap (snd (measure_qubit q u now w)) a)"
proof (cases "measured (heap w (state q)) = 2")
  case False
  with assms show ?thesis by (simp add: measure_qubit_def)
next
  case True
  have r: "fst (measure_qubit q u now w) = 0 \<or> fst (measure_qubit q u now w) = 1"
    by (simp add: fst_measure_qubit [OF True])
  show ?thesis
  proof (cases "a = state q")
    case True
    with r show ?thesis
      by (auto simp: heap_measure_qubit [OF \<open>measured (heap w (state q)) = 2\<close>]
          collapsed_amps_def amps_def)
  next
    case False
    with assms show ?thesis
      by (simp add: heap_measure_qubit [OF True])
  qed
qed

lemma amps_measure_other:
  assumes "a \<noteq> state q"
  shows "amps (heap (snd (measure_qubit q u now w)) a) = amps (heap w a)"
proof (cases "measured (heap w (state q)) = 2")
  case False
  then show ?thesis by (simp add: measure_qubit_def)
next
  case True
  with assms show ?thesis
    by (simp add: heap_measure_qubit [OF True] amps_def)
qed

subsection \<open>Group formation round by round\<close>

















subsection \<open>Evaluating the concrete stores\<close>

lemmas ops = Qubit_new_def openOrCreate_def mmap_seg_def initHeader_def on_state_def
  updateTimestamp_def formGHZGroup_def ghz_round_def ghz_peers_def entangle_def setState_def
  applyGate_def Let_def

lemmas exs = ex_clock_def ex_world10_def ex_world9_def ex_world8_def ex_world7_def ex_world6_def ex_world5_def ex_world4_def ex_world3_def ex_world2_def
  ex_world1_def ex_world0_def ex_q1_def ex_q2_def ex_q3_def

lemmas ev = c_str_Nil c_str_Cons NUL_def upt_conv_Cons zero_state_def
  slot_ok_zero [unfolded NUL_def] slot_ok_strncpy c_str_strncpy_slot

lemma ex4_count: "unat (link_count (heap ex_world4 (state ex_q1))) = 2"
  by (simp add: exs ops ev)

lemma ex4_link0: "link_at (heap ex_world4 (state ex_q1)) 0 = ''no_such_peer''"
  by (simp add: exs ops ev link_at_def)

lemma ex4_link1: "link_at (heap ex_world4 (state ex_q1)) (Suc 0) = ''bell_qubit2''"
  by (simp add: exs ops ev link_at_def)

lemma ex4_missing: "open_peer ex_world4 ''no_such_peer'' = None"
  by (simp add: exs ops ev open_peer_def shm_open_def)

lemma ex4_peer: "open_peer ex_world4 ''bell_qubit2'' = Some 1"
  by (simp add: exs ops ev open_peer_def shm_open_def)

lemma ex4_notified: "notified ex_q1 ex_world4 = [1]"
  by (simp add: notified_def notified_from_def ex4_count ex4_link0 ex4_link1 ex4_missing
      ex4_peer upt_conv_Cons)

lemma ex8_notified: "notified ex_q1 ex_world8 = []"
proof -
  have h: "heap ex_world8 = heap ex_world4"
    by (simp add: ex_world8_def)
  have "open_peer ex_world8 ''no_such_peer'' = None"
    by (simp add: exs ops ev open_peer_def shm_open_def)
  moreover have "open_peer ex_world8 ''bell_qubit2'' = None"
    by (simp add: exs ops ev open_peer_def shm_open_def)
  ultimately show ?thesis
    by (simp add: notified_def notified_from_def h ex4_count ex4_link0 ex4_link1 upt_conv_Cons)
qed

lemma ex_states: "state ex_q1 = 0" "state ex_q2 = Suc 0" "state ex_q3 = 2"
  by (simp_all add: exs)

lemma ex4_link_names:
  "link_names (heap ex_world4 0) = [''no_such_peer'', ''bell_qubit2'']"
  "link_names (heap ex_world4 (Suc 0)) = [''bell_qubit3'']"
  by (simp_all add: exs ops ev link_names_def link_at_def)

lemma ex4_seg0:
  "measured (heap ex_world4 0) = 2"
  "beta_real (heap ex_world4 0) = ddiv (Fin 1) M_SQRT2"
  "beta_imag (heap ex_world4 0) = Fin 0"
  "created_at (heap ex_world4 0) = 102"
  by (simp_all add: exs ops ev)

lemma ex4_seg1: "measured (heap ex_world4 (Suc 0)) = 2"
  by (simp add: exs ops ev)

lemma ex4_seg2:
  "measured (heap ex_world4 2) = 2"
  "amps (heap ex_world4 2) = (to_double (3 / 5), Fin 0, to_double (4 / 5), Fin 0)"
  "created_at (heap ex_world4 2) = 104"
  "decohere_timeout_ms (heap ex_world4 2) = 5000"
  "link_count (heap ex_world4 2) = 0"
  by (simp_all add: exs ops ev amps_def)

lemma ex4_seg2_fields:
  "alpha_real (heap ex_world4 2) = to_double (3 / 5)" "alpha_imag (heap ex_world4 2) = Fin 0"
  "beta_real (heap ex_world4 2) = to_double (4 / 5)" "beta_imag (heap ex_world4 2) = Fin 0"
  using ex4_seg2(2) by (simp_all add: amps_def)

lemma ex2_seg0: "measured (heap ex_world2 0) = 0"
  by (simp add: exs ops ev)

lemma ex4_seg0_amps: "amps (heap ex_world4 0) = (ddiv (Fin 1) M_SQRT2, Fin 0, ddiv (Fin 1) M_SQRT2, Fin 0)"
  by (simp add: exs ops ev amps_def)

lemma ex4_seg1_amps: "amps (heap ex_world4 (Suc 0)) = (ddiv (Fin 1) M_SQRT2, Fin 0, ddiv (Fin 1) M_SQRT2, Fin 0)"
  by (simp add: exs ops ev amps_def)

lemma ex4_q1_superposed: "measured (heap ex_world4 (state ex_q1)) = 2"
  by (simp add: ex_states ex4_seg0)

lemma ex4_q1_draw: "fst (measure_qubit ex_q1 (1 / 4) 105 ex_world4) = 1"
proof -
  have r: "\<bar>inv_sqrt2_64\<bar> \<le> 1" "\<bar>0::real\<bar> \<le> 1"
    using inv_sqrt2_64(3,4) by simp_all
  have "bernoulli (dadd (dmul (Fin inv_sqrt2_64) (Fin inv_sqrt2_64)) (dmul (Fin 0) (Fin 0)))
          (1 / 4)"
    using inv_sqrt2_64_square by (intro bernoulli_norm(1) [OF r]) simp
  then show ?thesis
    by (simp add: fst_measure_qubit [OF ex4_q1_superposed] ex_states ex4_seg0 inv_sqrt2_64(1))
qed

lemma ex7_seg0: "measured (heap ex_world7 0) = 1" "amps (heap ex_world7 0) = (Fin 0, Fin 0, Fin 1, Fin 0)"
  by (simp_all add: ex_world7_def heap_measure_qubit [OF ex4_q1_superposed] ex4_q1_draw
      ex_states amps_def)

lemma ex7_seg1:
  "measured (heap ex_world7 (Suc 0)) = 1"
  "amps (heap ex_world7 (Suc 0)) = (ddiv (Fin 1) M_SQRT2, Fin 0, ddiv (Fin 1) M_SQRT2, Fin 0)"
  using ex4_seg1_amps
  by (simp_all add: ex_world7_def heap_measure_qubit [OF ex4_q1_superposed] ex4_q1_draw
      ex_states ex4_notified amps_def)



lemma ex_pair: "[ex_q1, ex_q2] ! 0 = ex_q1" "[ex_q1, ex_q2] ! Suc 0 = ex_q2"
  by simp_all

section \<open>Idempotent measurement and the custom state\<close>

text \<open>
  C4. On a register whose \<open>measured\<close> byte is not 2, \<open>measure\<close> returns that byte and the
  whole store after the call is the store before it: no field of the record changes, in
  particular not \<open>created_at\<close>, and no peer is written.
\<close>

theorem measure_collapsed_pure:
  assumes "measured (heap w (state q)) \<noteq> 2"
  shows "measure_qubit q u now w = (measured (heap w (state q)), w)"
  using assms by (simp add: measure_qubit_def)

theorem measure_collapsed_pure_witness:
  "measured (heap ex_world2 (state ex_q1)) \<noteq> 2
   \<and> measure_qubit ex_q1 (1 / 4) 105 ex_world2 = (0, ex_world2)"
proof -
  have h: "measured (heap ex_world2 (state ex_q1)) \<noteq> 2"
    by (simp add: exs ops ev)
  have v: "measured (heap ex_world2 (state ex_q1)) = 0"
    by (simp add: exs ops ev)
  show ?thesis
    using measure_collapsed_pure [OF h, of "1 / 4" 105] h v by simp
qed

text \<open>
  C10. \<open>setState\<close> stores the four supplied components and sets \<open>measured\<close> to 2 whatever
  it was before; the link table and the link count are the ones before the call, and no
  other segment is written.
\<close>

theorem setState_overwrites:
  "alpha_real (heap (setState q ar ai br bi now w) (state q)) = ar
   \<and> alpha_imag (heap (setState q ar ai br bi now w) (state q)) = ai
   \<and> beta_real (heap (setState q ar ai br bi now w) (state q)) = br
   \<and> beta_imag (heap (setState q ar ai br bi now w) (state q)) = bi
   \<and> measured (heap (setState q ar ai br bi now w) (state q)) = 2
   \<and> links (heap (setState q ar ai br bi now w) (state q)) = links (heap w (state q))
   \<and> link_count (heap (setState q ar ai br bi now w) (state q))
       = link_count (heap w (state q))"
  by (simp add: setState_def on_state_def updateTimestamp_def)

section \<open>Propagation\<close>

text \<open>
  C7. \<open>propagateToLinks\<close> goes through the stored peer names in the order of the link
  table. A name that \<open>shm_open\<close> or \<open>mmap\<close> refuses contributes nothing and the loop goes
  on with the next name; a segment that opens has its \<open>measured\<close> byte set to the given
  outcome and no other field touched, whatever its amplitudes are. A segment that none of
  the stored names resolves to is left as it was, also when it is a peer of a notified
  peer; the namespace is not changed. What \<open>measure\<close> returns does not depend on which
  peers can be opened or mapped.
\<close>

theorem propagate_one_hop:
  "propagateToLinks result q w = fold (\<lambda>p. poke_measured p result) (notified q w) w
   \<and> heap (propagateToLinks result q w) a
       = (if a \<in> set (notified q w) then (heap w a)\<lparr>measured := result\<rparr> else heap w a)
   \<and> names (propagateToLinks result q w) = names w
   \<and> fst (measure_qubit q u now (w\<lparr>open_denied := d, mmap_fails := f\<rparr>))
       = fst (measure_qubit q u now w)"
  by (simp add: propagateToLinks_def notified_def propagate_from_fold heap_fold_poke
      frame_fold_poke measure_qubit_def Let_def)

theorem propagate_one_hop_witness:
  "link_names (heap ex_world4 (state ex_q1)) = [''no_such_peer'', ''bell_qubit2'']
   \<and> open_peer ex_world4 ''no_such_peer'' = None
   \<and> open_peer ex_world4 ''bell_qubit2'' = Some (state ex_q2)
   \<and> propagateToLinks 1 ex_q1 ex_world4 = poke_measured (state ex_q2) 1 ex_world4
   \<and> measured (heap (propagateToLinks 1 ex_q1 ex_world4) (state ex_q2)) = 1
   \<and> link_names (heap ex_world4 (state ex_q2)) = [''bell_qubit3'']
   \<and> measured (heap ex_world4 (state ex_q3)) = 2
   \<and> heap (propagateToLinks 1 ex_q1 ex_world4) (state ex_q3) = heap ex_world4 (state ex_q3)
   \<and> propagateToLinks 1 ex_q1 ex_world8 = ex_world8"
  using propagate_one_hop [of 1 ex_q1 ex_world4 "Suc 0"]
    propagate_one_hop [of 1 ex_q1 ex_world4 2] propagate_one_hop [of 1 ex_q1 ex_world8]
  by (simp add: ex4_notified ex8_notified ex4_link_names ex4_missing ex4_peer ex_states
      ex4_seg2 poke_measured_def)

section \<open>Measurement of a superposed register\<close>

text \<open>
  C2. On a register whose \<open>measured\<close> byte is 2, \<open>measure\<close> takes \<open>p1\<close> as the squared
  modulus of the second amplitude, computed in binary64 as the rounded sum of the two
  rounded squares, and one Bernoulli draw with that parameter: the draw is 1 exactly when
  the generator's variate \<open>u\<close> is below \<open>p1\<close>. For finite components of magnitude up to
  \<open>2 ^ 500\<close> the computed \<open>p1\<close> is a finite value within three unit roundoffs (relative)
  and four times \<open>eta\<close> of the squared modulus. The record of the register afterwards has
  the draw in \<open>measured\<close>, the amplitudes (1,0) and (0,0) for the draw 0 and (0,0) and
  (1,0) for the draw 1, \<open>created_at\<close> at the clock's reading, and the instance's timeout;
  every other segment that a stored peer name opens has its \<open>measured\<close> byte set to the
  draw and the rest are unchanged; the returned byte is the stored one.
\<close>

theorem measure_superposed:
  assumes "measured (heap w (state q)) = 2"
  shows "fst (measure_qubit q u now w)
           = (if bernoulli (dadd (dmul (beta_real (heap w (state q)))
                                       (beta_real (heap w (state q))))
                                 (dmul (beta_imag (heap w (state q)))
                                       (beta_imag (heap w (state q))))) u
              then 1 else 0)
   \<and> (beta_real (heap w (state q)) = Fin x \<and> beta_imag (heap w (state q)) = Fin y
        \<and> \<bar>x\<bar> \<le> 2 ^ 500 \<and> \<bar>y\<bar> \<le> 2 ^ 500 \<longrightarrow>
          dadd (dmul (Fin x) (Fin x)) (dmul (Fin y) (Fin y)) = Fin (norm_val x y)
          \<and> \<bar>norm_val x y - (x * x + y * y)\<bar> \<le> 3 * (eps * (x * x + y * y)) + 4 * eta
          \<and> fst (measure_qubit q u now w) = (if u < norm_val x y then 1 else 0))
   \<and> heap (snd (measure_qubit q u now w)) (state q)
       = (heap w (state q))
           \<lparr>alpha_real := (if fst (measure_qubit q u now w) = 0 then Fin 1 else Fin 0),
            alpha_imag := Fin 0,
            beta_real := (if fst (measure_qubit q u now w) = 0 then Fin 0 else Fin 1),
            beta_imag := Fin 0,
            measured := fst (measure_qubit q u now w),
            created_at := now,
            decohere_timeout_ms := decohere_timeout q\<rparr>
   \<and> (\<forall>a. a \<noteq> state q \<longrightarrow>
          heap (snd (measure_qubit q u now w)) a
            = (if a \<in> set (notified q w)
               then (heap w a)\<lparr>measured := fst (measure_qubit q u now w)\<rparr>
               else heap w a))
   \<and> names (snd (measure_qubit q u now w)) = names w
   \<and> fst (measure_qubit q u now w) = measured (heap (snd (measure_qubit q u now w)) (state q))"
proof (intro conjI impI allI)
  show "fst (measure_qubit q u now w)
           = (if bernoulli (dadd (dmul (beta_real (heap w (state q)))
                                       (beta_real (heap w (state q))))
                                 (dmul (beta_imag (heap w (state q)))
                                       (beta_imag (heap w (state q))))) u
              then 1 else 0)"
    by (rule fst_measure_qubit [OF assms])
next
  assume f: "beta_real (heap w (state q)) = Fin x \<and> beta_imag (heap w (state q)) = Fin y
        \<and> \<bar>x\<bar> \<le> 2 ^ 500 \<and> \<bar>y\<bar> \<le> 2 ^ 500"
  then have r: "\<bar>x\<bar> \<le> 2 ^ 500" "\<bar>y\<bar> \<le> 2 ^ 500" by blast+
  show n: "dadd (dmul (Fin x) (Fin x)) (dmul (Fin y) (Fin y)) = Fin (norm_val x y)"
    using norm_q_finite(1) [OF r] by (simp add: norm_q_def)
  show "\<bar>norm_val x y - (x * x + y * y)\<bar> \<le> 3 * (eps * (x * x + y * y)) + 4 * eta"
    by (rule norm_q_finite(2) [OF r])
  show "fst (measure_qubit q u now w) = (if u < norm_val x y then 1 else 0)"
    using f n by (simp add: fst_measure_qubit [OF assms] bernoulli_def)
next
  show "heap (snd (measure_qubit q u now w)) (state q)
       = (heap w (state q))
           \<lparr>alpha_real := (if fst (measure_qubit q u now w) = 0 then Fin 1 else Fin 0),
            alpha_imag := Fin 0,
            beta_real := (if fst (measure_qubit q u now w) = 0 then Fin 0 else Fin 1),
            beta_imag := Fin 0,
            measured := fst (measure_qubit q u now w),
            created_at := now,
            decohere_timeout_ms := decohere_timeout q\<rparr>"
    by (simp add: heap_measure_qubit [OF assms])
next
  fix a
  assume "a \<noteq> state q"
  then show "heap (snd (measure_qubit q u now w)) a
            = (if a \<in> set (notified q w)
               then (heap w a)\<lparr>measured := fst (measure_qubit q u now w)\<rparr>
               else heap w a)"
    by (simp add: heap_measure_qubit [OF assms])
next
  show "names (snd (measure_qubit q u now w)) = names w"
    using assms
    by (simp add: measure_qubit_def Let_def frame_on_state frame_propagateToLinks)
next
  show "fst (measure_qubit q u now w)
          = measured (heap (snd (measure_qubit q u now w)) (state q))"
    by (simp add: heap_measure_qubit [OF assms])
qed

theorem measure_superposed_witness:
  "measured (heap ex_world4 (state ex_q1)) = 2
   \<and> fst (measure_qubit ex_q1 (1 / 4) 105 ex_world4) = 1
   \<and> amps (heap (snd (measure_qubit ex_q1 (1 / 4) 105 ex_world4)) (state ex_q1))
       = (Fin 0, Fin 0, Fin 1, Fin 0)
   \<and> measured (heap (snd (measure_qubit ex_q1 (1 / 4) 105 ex_world4)) (state ex_q1)) = 1
   \<and> created_at (heap (snd (measure_qubit ex_q1 (1 / 4) 105 ex_world4)) (state ex_q1)) = 105
   \<and> measured (heap (snd (measure_qubit ex_q1 (1 / 4) 105 ex_world4)) 1) = 1
   \<and> measured (heap (snd (measure_qubit ex_q1 (1 / 4) 105 ex_world4)) 2) = 2
   \<and> measured (heap ex_world9 (state ex_q3)) = 2
   \<and> beta_real (heap ex_world9 (state ex_q3)) = Fin (1 / 2)
   \<and> beta_imag (heap ex_world9 (state ex_q3)) = Fin (1 / 2)
   \<and> fst (measure_qubit ex_q3 (3 / 8) 108 ex_world9) = 1
   \<and> amps (heap (snd (measure_qubit ex_q3 (3 / 8) 108 ex_world9)) (state ex_q3))
       = (Fin 0, Fin 0, Fin 1, Fin 0)
   \<and> fst (measure_qubit ex_q3 (5 / 8) 108 ex_world9) = 0
   \<and> amps (heap (snd (measure_qubit ex_q3 (5 / 8) 108 ex_world9)) (state ex_q3))
       = (Fin 1, Fin 0, Fin 0, Fin 0)
   \<and> measured (heap (snd (measure_qubit ex_q3 (5 / 8) 108 ex_world9)) (state ex_q3)) = 0
   \<and> fst (measure_qubit ex_q3 (1 / 2) 108 ex_world9) = 0
   \<and> beta_real (heap ex_world4 (state ex_q1)) = Fin (6369051672525772 / 2 ^ 53)
   \<and> beta_imag (heap ex_world4 (state ex_q1)) = Fin 0
   \<and> 4503599627370495 / 2 ^ 53 < (6369051672525772 / 2 ^ 53) * (6369051672525772 / 2 ^ 53 :: real)
   \<and> fst (measure_qubit ex_q1 (4503599627370495 / 2 ^ 53) 105 ex_world4) = 0"
proof -
  have h: "measured (heap ex_world4 (state ex_q1)) = 2"
    by (simp add: ex_states ex4_seg0)
  have b4: "beta_real (heap ex_world4 (state ex_q1)) = Fin inv_sqrt2_64
            \<and> beta_imag (heap ex_world4 (state ex_q1)) = Fin 0
            \<and> \<bar>inv_sqrt2_64\<bar> \<le> 2 ^ 500 \<and> \<bar>0::real\<bar> \<le> 2 ^ 500"
    using inv_sqrt2_64(3,4) by (simp add: ex_states ex4_seg0 inv_sqrt2_64(1))
  have r: "fst (measure_qubit ex_q1 (1 / 4) 105 ex_world4) = 1"
  proof -
    define n where "n = inv_sqrt2_64 * inv_sqrt2_64"
    define v where "v = norm_val inv_sqrt2_64 0"
    define EN where "EN = eps * n"
    have "\<bar>norm_val inv_sqrt2_64 0 - (inv_sqrt2_64 * inv_sqrt2_64 + 0 * 0)\<bar>
            \<le> 3 * (eps * (inv_sqrt2_64 * inv_sqrt2_64 + 0 * 0)) + 4 * eta"
         "fst (measure_qubit ex_q1 (1 / 4) 105 ex_world4)
            = (if 1 / 4 < norm_val inv_sqrt2_64 0 then 1 else 0)"
      using measure_superposed [where x = inv_sqrt2_64 and y = 0 and u = "1 / 4" and now = 105,
                                OF h] b4
      by blast+
    then have b: "\<bar>v - n\<bar> \<le> 3 * EN + 4 * eta"
      and f: "fst (measure_qubit ex_q1 (1 / 4) 105 ex_world4) = (if 1 / 4 < v then 1 else 0)"
      by (simp_all add: n_def v_def EN_def)
    have "inv_sqrt2_64 * inv_sqrt2_64 \<le> 1 * 1"
      using inv_sqrt2_64(3,4) by (intro mult_mono) simp_all
    then have n1: "n \<le> 1" by (simp add: n_def)
    have n0: "49 / 100 \<le> n" using inv_sqrt2_64_square by (simp add: n_def)
    have "eps * n \<le> eps * 1"
      using n1 eps_bounds by (intro mult_left_mono) simp_all
    then have en: "EN \<le> eps" by (simp add: EN_def)
    have "1 / 4 < v"
      using b en n0 small_errors(1) eps_bounds eta_pos by linarith
    then show ?thesis using f by simp
  qed
  have a: "measured (heap ex_world4 (state ex_q1)) = 2
   \<and> fst (measure_qubit ex_q1 (1 / 4) 105 ex_world4) = 1
   \<and> amps (heap (snd (measure_qubit ex_q1 (1 / 4) 105 ex_world4)) (state ex_q1))
       = (Fin 0, Fin 0, Fin 1, Fin 0)
   \<and> measured (heap (snd (measure_qubit ex_q1 (1 / 4) 105 ex_world4)) (state ex_q1)) = 1
   \<and> created_at (heap (snd (measure_qubit ex_q1 (1 / 4) 105 ex_world4)) (state ex_q1)) = 105
   \<and> measured (heap (snd (measure_qubit ex_q1 (1 / 4) 105 ex_world4)) 1) = 1
   \<and> measured (heap (snd (measure_qubit ex_q1 (1 / 4) 105 ex_world4)) 2) = 2"
    using measure_superposed [where x = inv_sqrt2_64 and y = 0 and u = "1 / 4" and now = 105, OF h]
    by (simp add: r ex_states ex4_seg0 ex4_seg1 ex4_seg2 ex4_notified amps_def)
  have h9: "measured (heap ex_world9 (state ex_q3)) = 2"
    by (simp add: exs ops ev)
  have b9: "beta_real (heap ex_world9 (state ex_q3)) = Fin (1 / 2)
            \<and> beta_imag (heap ex_world9 (state ex_q3)) = Fin (1 / 2)"
    by (simp add: exs ops ev)
  have b9': "beta_real (heap ex_world9 (state ex_q3)) = Fin (1 / 2)
            \<and> beta_imag (heap ex_world9 (state ex_q3)) = Fin (1 / 2)
            \<and> \<bar>1 / 2 :: real\<bar> \<le> 2 ^ 500 \<and> \<bar>1 / 2 :: real\<bar> \<le> 2 ^ 500"
    using b9 by simp
  have n9: "\<bar>norm_val (1 / 2) (1 / 2) - 1 / 2\<bar> \<le> 1 / 1000"
  proof -
    have "\<bar>norm_val (1 / 2) (1 / 2) - (1 / 2 * (1 / 2) + 1 / 2 * (1 / 2))\<bar>
            \<le> 3 * (eps * (1 / 2 * (1 / 2) + 1 / 2 * (1 / 2))) + 4 * eta"
      using measure_superposed [where x = "1 / 2" and y = "1 / 2" and u = "3 / 8" and now = 108, OF h9] b9' by blast
    then show ?thesis using small_errors(1) eps_bounds by simp
  qed
  have r1: "fst (measure_qubit ex_q3 (3 / 8) 108 ex_world9) = 1"
  proof -
    have "fst (measure_qubit ex_q3 (3 / 8) 108 ex_world9)
            = (if 3 / 8 < norm_val (1 / 2) (1 / 2) then 1 else 0)"
      using measure_superposed [where x = "1 / 2" and y = "1 / 2" and u = "3 / 8" and now = 108,
                                OF h9] b9'
      by blast
    moreover have "3 / 8 < norm_val (1 / 2) (1 / 2)" using n9 by linarith
    ultimately show ?thesis by simp
  qed
  have r0: "fst (measure_qubit ex_q3 (5 / 8) 108 ex_world9) = 0"
  proof -
    have "fst (measure_qubit ex_q3 (5 / 8) 108 ex_world9)
            = (if 5 / 8 < norm_val (1 / 2) (1 / 2) then 1 else 0)"
      using measure_superposed [where x = "1 / 2" and y = "1 / 2" and u = "5 / 8" and now = 108,
                                OF h9] b9'
      by blast
    moreover have "\<not> 5 / 8 < norm_val (1 / 2) (1 / 2)" using n9 by linarith
    ultimately show ?thesis by simp
  qed
  have c: "amps (heap (snd (measure_qubit ex_q3 (3 / 8) 108 ex_world9)) (state ex_q3))
       = (Fin 0, Fin 0, Fin 1, Fin 0)"
    using measure_superposed [where x = "1 / 2" and y = "1 / 2" and u = "3 / 8" and now = 108, OF h9]
    by (simp add: r1 amps_def)
  have d: "amps (heap (snd (measure_qubit ex_q3 (5 / 8) 108 ex_world9)) (state ex_q3))
       = (Fin 1, Fin 0, Fin 0, Fin 0)
     \<and> measured (heap (snd (measure_qubit ex_q3 (5 / 8) 108 ex_world9)) (state ex_q3)) = 0"
    using measure_superposed [where x = "1 / 2" and y = "1 / 2" and u = "5 / 8" and now = 108, OF h9]
    by (simp add: r0 amps_def)
  have e: "fst (measure_qubit ex_q3 (1 / 2) 108 ex_world9) = 0"
  proof -
    have "fst (measure_qubit ex_q3 (1 / 2) 108 ex_world9)
            = (if bernoulli (norm_q (Fin (1 / 2)) (Fin (1 / 2))) (1 / 2) then 1 else 0)"
      using measure_superposed [where x = "1 / 2" and y = "1 / 2" and u = "1 / 2" and now = 108,
                                OF h9] b9
      by (simp add: norm_q_def)
    then show ?thesis by (simp add: norm_q_values(2) bernoulli_def)
  qed
  have v: "beta_real (heap ex_world4 (state ex_q1)) = Fin (6369051672525772 / 2 ^ 53)
           \<and> beta_imag (heap ex_world4 (state ex_q1)) = Fin 0"
    using b4 by (simp add: inv_sqrt2_64_value)
  have t: "4503599627370495 / 2 ^ 53
             < (6369051672525772 / 2 ^ 53) * (6369051672525772 / 2 ^ 53 :: real)"
    by simp
  have g: "fst (measure_qubit ex_q1 (4503599627370495 / 2 ^ 53) 105 ex_world4) = 0"
  proof -
    have "fst (measure_qubit ex_q1 (4503599627370495 / 2 ^ 53) 105 ex_world4)
            = (if bernoulli (norm_q (Fin inv_sqrt2_64) (Fin 0)) (4503599627370495 / 2 ^ 53)
               then 1 else 0)"
      using measure_superposed [where x = inv_sqrt2_64 and y = 0
                                  and u = "4503599627370495 / 2 ^ 53" and now = 105, OF h] b4
      by (simp add: norm_q_def)
    then show ?thesis by (simp add: norm_q_values(1) bernoulli_def)
  qed
  from a h9 b9 r1 r0 c d e v t g show ?thesis by blast
qed

section \<open>Group formation outside the admitted sizes\<close>

text \<open>
  C8. For a list of fewer than two or more than five registers, \<open>formGHZGroup\<close> writes the
  size message to the error stream and returns at once: the store after the call, and so
  every member's record, is the store before it.
\<close>

theorem formGHZGroup_rejects:
  assumes "length qubits < 2 \<or> 5 < length qubits"
  shows "formGHZGroup qubits clock w = ([''GHZ group size must be between 2 and 5''], w)"
  using assms by (auto simp: formGHZGroup_def)

theorem formGHZGroup_rejects_witness:
  "formGHZGroup [ex_q1] ex_clock ex_world4
     = ([''GHZ group size must be between 2 and 5''], ex_world4)
   \<and> formGHZGroup [ex_q1, ex_q2, ex_q3, ex_q1, ex_q2, ex_q3] ex_clock ex_world4
     = ([''GHZ group size must be between 2 and 5''], ex_world4)"
  using formGHZGroup_rejects [of "[ex_q1]" ex_clock ex_world4]
    formGHZGroup_rejects [of "[ex_q1, ex_q2, ex_q3, ex_q1, ex_q2, ex_q3]" ex_clock ex_world4]
  by simp

section \<open>Gate algebra\<close>

text \<open>
  C9, as the code has it. On a superposed register two applications of X give back the
  four amplitude components, and so do two of Z. From the components (1,0,0,0) one H gives
  the binary64 value of \<^verbatim>\<open>1.0 / M_SQRT2\<close> in the two real parts and 0 in the imaginary
  parts, and that value is within \<open>2 * eps + eta\<close> of \<open>1 / sqrt 2\<close>; one X gives (0,0,1,0);
  from (0,0,1,0) one Z gives (0,0,-1,0). Two applications of H on finite components of
  magnitude up to \<open>2 ^ 1000\<close> give finite components, each within
  \<open>20 * eps * (\<bar>a\<bar> + \<bar>b\<bar>) + 10 * eta\<close> of the original one, where \<open>a\<close> and \<open>b\<close> are the
  real parts of the two amplitudes for a real part and the imaginary parts for an
  imaginary part.
\<close>

theorem gate_algebra:
  assumes "measured (heap w (state q)) = 2"
  shows "amps (heap (snd (applyGate q (CHR ''X'') t2 (snd (applyGate q (CHR ''X'') t1 w)))) (state q))
           = amps (heap w (state q))
   \<and> amps (heap (snd (applyGate q (CHR ''Z'') t2 (snd (applyGate q (CHR ''Z'') t1 w)))) (state q))
           = amps (heap w (state q))
   \<and> (amps (heap w (state q)) = (Fin 1, Fin 0, Fin 0, Fin 0) \<longrightarrow>
         amps (heap (snd (applyGate q (CHR ''H'') t1 w)) (state q))
           = (ddiv (Fin 1) M_SQRT2, Fin 0, ddiv (Fin 1) M_SQRT2, Fin 0)
         \<and> close_to (2 * eps + eta) (ddiv (Fin 1) M_SQRT2) (1 / sqrt 2)
         \<and> amps (heap (snd (applyGate q (CHR ''X'') t1 w)) (state q))
           = (Fin 0, Fin 0, Fin 1, Fin 0))
   \<and> (amps (heap w (state q)) = (Fin 0, Fin 0, Fin 1, Fin 0) \<longrightarrow>
         amps (heap (snd (applyGate q (CHR ''Z'') t1 w)) (state q))
           = (Fin 0, Fin 0, Fin (- 1), Fin 0))
   \<and> (amps (heap w (state q)) = (Fin ar, Fin ai, Fin br, Fin bi)
        \<and> \<bar>ar\<bar> \<le> 2 ^ 1000 \<and> \<bar>ai\<bar> \<le> 2 ^ 1000 \<and> \<bar>br\<bar> \<le> 2 ^ 1000 \<and> \<bar>bi\<bar> \<le> 2 ^ 1000 \<longrightarrow>
         close_to (20 * (eps * (\<bar>ar\<bar> + \<bar>br\<bar>)) + 10 * eta)
           (alpha_real (heap (snd (applyGate q (CHR ''H'') t2
                                     (snd (applyGate q (CHR ''H'') t1 w)))) (state q))) ar
         \<and> close_to (20 * (eps * (\<bar>ai\<bar> + \<bar>bi\<bar>)) + 10 * eta)
           (alpha_imag (heap (snd (applyGate q (CHR ''H'') t2
                                     (snd (applyGate q (CHR ''H'') t1 w)))) (state q))) ai
         \<and> close_to (20 * (eps * (\<bar>ar\<bar> + \<bar>br\<bar>)) + 10 * eta)
           (beta_real (heap (snd (applyGate q (CHR ''H'') t2
                                    (snd (applyGate q (CHR ''H'') t1 w)))) (state q))) br
         \<and> close_to (20 * (eps * (\<bar>ai\<bar> + \<bar>bi\<bar>)) + 10 * eta)
           (beta_imag (heap (snd (applyGate q (CHR ''H'') t2
                                    (snd (applyGate q (CHR ''H'') t1 w)))) (state q))) bi)"
proof -
  have X: "amps (heap (snd (applyGate q (CHR ''X'') t2 (snd (applyGate q (CHR ''X'') t1 w)))) (state q))
           = amps (heap w (state q))"
    using assms
    by (simp add: applyGate_def Let_def heap_on_state updateTimestamp_def amps_def)
  have Z: "amps (heap (snd (applyGate q (CHR ''Z'') t2 (snd (applyGate q (CHR ''Z'') t1 w)))) (state q))
           = amps (heap w (state q))"
    using assms
    by (simp add: applyGate_def Let_def heap_on_state updateTimestamp_def amps_def dneg_dneg)
  have F: "amps (heap w (state q)) = (Fin 1, Fin 0, Fin 0, Fin 0) \<longrightarrow>
         amps (heap (snd (applyGate q (CHR ''H'') t1 w)) (state q))
           = (ddiv (Fin 1) M_SQRT2, Fin 0, ddiv (Fin 1) M_SQRT2, Fin 0)
         \<and> close_to (2 * eps + eta) (ddiv (Fin 1) M_SQRT2) (1 / sqrt 2)
         \<and> amps (heap (snd (applyGate q (CHR ''X'') t1 w)) (state q))
           = (Fin 0, Fin 0, Fin 1, Fin 0)"
  proof (intro impI conjI)
    assume a: "amps (heap w (state q)) = (Fin 1, Fin 0, Fin 0, Fin 0)"
    then have f: "alpha_real (heap w (state q)) = Fin 1" "alpha_imag (heap w (state q)) = Fin 0"
          "beta_real (heap w (state q)) = Fin 0" "beta_imag (heap w (state q)) = Fin 0"
      by (simp_all add: amps_def)
    show "amps (heap (snd (applyGate q (CHR ''H'') t1 w)) (state q))
           = (ddiv (Fin 1) M_SQRT2, Fin 0, ddiv (Fin 1) M_SQRT2, Fin 0)"
      unfolding applyGate_H(1) [OF assms] f hadamard_basis inv_sqrt2_64(1) by (rule refl)
    show "close_to (2 * eps + eta) (ddiv (Fin 1) M_SQRT2) (1 / sqrt 2)"
      unfolding inv_sqrt2_64(1) close_to_Fin by (rule inv_sqrt2_64(2))
    show "amps (heap (snd (applyGate q (CHR ''X'') t1 w)) (state q))
           = (Fin 0, Fin 0, Fin 1, Fin 0)"
      using assms f
      by (simp add: applyGate_def Let_def heap_on_state updateTimestamp_def amps_def)
  qed
  have G: "amps (heap w (state q)) = (Fin 0, Fin 0, Fin 1, Fin 0) \<longrightarrow>
         amps (heap (snd (applyGate q (CHR ''Z'') t1 w)) (state q))
           = (Fin 0, Fin 0, Fin (- 1), Fin 0)"
    using assms
    by (simp add: applyGate_def Let_def heap_on_state updateTimestamp_def amps_def)
  have H: "amps (heap w (state q)) = (Fin ar, Fin ai, Fin br, Fin bi)
        \<and> \<bar>ar\<bar> \<le> 2 ^ 1000 \<and> \<bar>ai\<bar> \<le> 2 ^ 1000 \<and> \<bar>br\<bar> \<le> 2 ^ 1000 \<and> \<bar>bi\<bar> \<le> 2 ^ 1000 \<longrightarrow>
         close_to (20 * (eps * (\<bar>ar\<bar> + \<bar>br\<bar>)) + 10 * eta)
           (alpha_real (heap (snd (applyGate q (CHR ''H'') t2
                                     (snd (applyGate q (CHR ''H'') t1 w)))) (state q))) ar
         \<and> close_to (20 * (eps * (\<bar>ai\<bar> + \<bar>bi\<bar>)) + 10 * eta)
           (alpha_imag (heap (snd (applyGate q (CHR ''H'') t2
                                     (snd (applyGate q (CHR ''H'') t1 w)))) (state q))) ai
         \<and> close_to (20 * (eps * (\<bar>ar\<bar> + \<bar>br\<bar>)) + 10 * eta)
           (beta_real (heap (snd (applyGate q (CHR ''H'') t2
                                    (snd (applyGate q (CHR ''H'') t1 w)))) (state q))) br
         \<and> close_to (20 * (eps * (\<bar>ai\<bar> + \<bar>bi\<bar>)) + 10 * eta)
           (beta_imag (heap (snd (applyGate q (CHR ''H'') t2
                                    (snd (applyGate q (CHR ''H'') t1 w)))) (state q))) bi"
  proof (intro impI)
    assume h: "amps (heap w (state q)) = (Fin ar, Fin ai, Fin br, Fin bi)
        \<and> \<bar>ar\<bar> \<le> 2 ^ 1000 \<and> \<bar>ai\<bar> \<le> 2 ^ 1000 \<and> \<bar>br\<bar> \<le> 2 ^ 1000 \<and> \<bar>bi\<bar> \<le> 2 ^ 1000"
    then have a: "amps (heap w (state q)) = (Fin ar, Fin ai, Fin br, Fin bi)"
      and r: "\<bar>ar\<bar> \<le> 2 ^ 1000" "\<bar>br\<bar> \<le> 2 ^ 1000"
      and i: "\<bar>ai\<bar> \<le> 2 ^ 1000" "\<bar>bi\<bar> \<le> 2 ^ 1000"
      by blast+
    have s: "alpha_real (heap (snd (applyGate q (CHR ''H'') t2
                                     (snd (applyGate q (CHR ''H'') t1 w)))) (state q))
               = ddiv (dadd (ddiv (dadd (Fin ar) (Fin br)) M_SQRT2)
                            (ddiv (dsub (Fin ar) (Fin br)) M_SQRT2)) M_SQRT2"
            "alpha_imag (heap (snd (applyGate q (CHR ''H'') t2
                                     (snd (applyGate q (CHR ''H'') t1 w)))) (state q))
               = ddiv (dadd (ddiv (dadd (Fin ai) (Fin bi)) M_SQRT2)
                            (ddiv (dsub (Fin ai) (Fin bi)) M_SQRT2)) M_SQRT2"
            "beta_real (heap (snd (applyGate q (CHR ''H'') t2
                                     (snd (applyGate q (CHR ''H'') t1 w)))) (state q))
               = ddiv (dsub (ddiv (dadd (Fin ar) (Fin br)) M_SQRT2)
                            (ddiv (dsub (Fin ar) (Fin br)) M_SQRT2)) M_SQRT2"
            "beta_imag (heap (snd (applyGate q (CHR ''H'') t2
                                     (snd (applyGate q (CHR ''H'') t1 w)))) (state q))
               = ddiv (dsub (ddiv (dadd (Fin ai) (Fin bi)) M_SQRT2)
                            (ddiv (dsub (Fin ai) (Fin bi)) M_SQRT2)) M_SQRT2"
      using applyGate_H_twice [OF assms a, of t2 t1] by (simp_all add: amps_def)
    show "close_to (20 * (eps * (\<bar>ar\<bar> + \<bar>br\<bar>)) + 10 * eta)
           (alpha_real (heap (snd (applyGate q (CHR ''H'') t2
                                     (snd (applyGate q (CHR ''H'') t1 w)))) (state q))) ar
         \<and> close_to (20 * (eps * (\<bar>ai\<bar> + \<bar>bi\<bar>)) + 10 * eta)
           (alpha_imag (heap (snd (applyGate q (CHR ''H'') t2
                                     (snd (applyGate q (CHR ''H'') t1 w)))) (state q))) ai
         \<and> close_to (20 * (eps * (\<bar>ar\<bar> + \<bar>br\<bar>)) + 10 * eta)
           (beta_real (heap (snd (applyGate q (CHR ''H'') t2
                                    (snd (applyGate q (CHR ''H'') t1 w)))) (state q))) br
         \<and> close_to (20 * (eps * (\<bar>ai\<bar> + \<bar>bi\<bar>)) + 10 * eta)
           (beta_imag (heap (snd (applyGate q (CHR ''H'') t2
                                    (snd (applyGate q (CHR ''H'') t1 w)))) (state q))) bi"
      unfolding s
      using close_to_hadamard_twice [OF r] close_to_hadamard_twice [OF i] by blast
  qed
  from X Z F G H show ?thesis by blast
qed

theorem gate_algebra_witness:
  "measured (heap ex_world5 (state ex_q3)) = 2
   \<and> amps (heap ex_world5 (state ex_q3)) = (Fin 1, Fin 0, Fin 0, Fin 0)
   \<and> amps (heap (snd (applyGate ex_q3 (CHR ''H'') 108 ex_world5)) (state ex_q3))
       = (ddiv (Fin 1) M_SQRT2, Fin 0, ddiv (Fin 1) M_SQRT2, Fin 0)
   \<and> close_to (2 * eps + eta) (ddiv (Fin 1) M_SQRT2) (1 / sqrt 2)
   \<and> ddiv (Fin 1) M_SQRT2 = Fin (6369051672525772 / 2 ^ 53)
   \<and> amps (heap (snd (applyGate ex_q3 (CHR ''H'') 109
                      (snd (applyGate ex_q3 (CHR ''H'') 108 ex_world5)))) (state ex_q3))
       = (Fin (1 - 1 / 2 ^ 53), Fin 0, Fin 0, Fin 0)
   \<and> close_to (20 * eps + 10 * eta)
       (alpha_real (heap (snd (applyGate ex_q3 (CHR ''H'') 109
                                 (snd (applyGate ex_q3 (CHR ''H'') 108 ex_world5)))) (state ex_q3)))
       1
   \<and> close_to (20 * eps + 10 * eta)
       (beta_real (heap (snd (applyGate ex_q3 (CHR ''H'') 109
                                (snd (applyGate ex_q3 (CHR ''H'') 108 ex_world5)))) (state ex_q3)))
       0
   \<and> amps (heap (snd (applyGate ex_q3 (CHR ''X'') 108 ex_world5)) (state ex_q3))
       = (Fin 0, Fin 0, Fin 1, Fin 0)
   \<and> amps (heap (snd (applyGate ex_q3 (CHR ''X'') 109
                      (snd (applyGate ex_q3 (CHR ''X'') 108 ex_world5)))) (state ex_q3))
       = (Fin 1, Fin 0, Fin 0, Fin 0)
   \<and> measured (heap ex_world6 (state ex_q3)) = 2
   \<and> amps (heap ex_world6 (state ex_q3)) = (Fin 0, Fin 0, Fin 1, Fin 0)
   \<and> amps (heap (snd (applyGate ex_q3 (CHR ''Z'') 109 ex_world6)) (state ex_q3))
       = (Fin 0, Fin 0, Fin (- 1), Fin 0)
   \<and> amps (heap (snd (applyGate ex_q3 (CHR ''Z'') 110
                      (snd (applyGate ex_q3 (CHR ''Z'') 109 ex_world6)))) (state ex_q3))
       = (Fin 0, Fin 0, Fin 1, Fin 0)"
proof -
  have m5: "measured (heap ex_world5 (state ex_q3)) = 2"
    by (simp add: exs ops ev)
  have a5: "amps (heap ex_world5 (state ex_q3)) = (Fin 1, Fin 0, Fin 0, Fin 0)"
    by (simp add: exs ops ev amps_def)
  have m6: "measured (heap ex_world6 (state ex_q3)) = 2"
    by (simp add: exs ops ev)
  have a6: "amps (heap ex_world6 (state ex_q3)) = (Fin 0, Fin 0, Fin 1, Fin 0)"
    by (simp add: exs ops ev amps_def)
  have v: "ddiv (Fin 1) M_SQRT2 = Fin (6369051672525772 / 2 ^ 53)"
    by (simp add: inv_sqrt2_64(1) inv_sqrt2_64_value)
  have hh: "amps (heap (snd (applyGate ex_q3 (CHR ''H'') 109
                      (snd (applyGate ex_q3 (CHR ''H'') 108 ex_world5)))) (state ex_q3))
       = (Fin (1 - 1 / 2 ^ 53), Fin 0, Fin 0, Fin 0)"
    unfolding applyGate_H_twice [OF m5 a5] hadamard_basis hadamard_back_one by (rule refl)
  have r: "measured (heap ex_world5 (state ex_q3)) = 2
   \<and> amps (heap ex_world5 (state ex_q3)) = (Fin 1, Fin 0, Fin 0, Fin 0)
   \<and> amps (heap (snd (applyGate ex_q3 (CHR ''H'') 108 ex_world5)) (state ex_q3))
       = (ddiv (Fin 1) M_SQRT2, Fin 0, ddiv (Fin 1) M_SQRT2, Fin 0)
   \<and> close_to (2 * eps + eta) (ddiv (Fin 1) M_SQRT2) (1 / sqrt 2)
   \<and> close_to (20 * eps + 10 * eta)
       (alpha_real (heap (snd (applyGate ex_q3 (CHR ''H'') 109
                                 (snd (applyGate ex_q3 (CHR ''H'') 108 ex_world5)))) (state ex_q3)))
       1
   \<and> close_to (20 * eps + 10 * eta)
       (beta_real (heap (snd (applyGate ex_q3 (CHR ''H'') 109
                                (snd (applyGate ex_q3 (CHR ''H'') 108 ex_world5)))) (state ex_q3)))
       0
   \<and> amps (heap (snd (applyGate ex_q3 (CHR ''X'') 108 ex_world5)) (state ex_q3))
       = (Fin 0, Fin 0, Fin 1, Fin 0)
   \<and> amps (heap (snd (applyGate ex_q3 (CHR ''X'') 109
                      (snd (applyGate ex_q3 (CHR ''X'') 108 ex_world5)))) (state ex_q3))
       = (Fin 1, Fin 0, Fin 0, Fin 0)
   \<and> measured (heap ex_world6 (state ex_q3)) = 2
   \<and> amps (heap ex_world6 (state ex_q3)) = (Fin 0, Fin 0, Fin 1, Fin 0)
   \<and> amps (heap (snd (applyGate ex_q3 (CHR ''Z'') 109 ex_world6)) (state ex_q3))
       = (Fin 0, Fin 0, Fin (- 1), Fin 0)
   \<and> amps (heap (snd (applyGate ex_q3 (CHR ''Z'') 110
                      (snd (applyGate ex_q3 (CHR ''Z'') 109 ex_world6)))) (state ex_q3))
       = (Fin 0, Fin 0, Fin 1, Fin 0)"
    using gate_algebra [where w = ex_world5 and q = ex_q3 and ?t1.0 = 108 and ?t2.0 = 109
                          and ar = 1 and ai = 0 and br = 0 and bi = 0, OF m5]
      gate_algebra [where w = ex_world6 and q = ex_q3 and ?t1.0 = 109 and ?t2.0 = 110
                          and ar = 0 and ai = 0 and br = 1 and bi = 0, OF m6]
      m5 a5 m6 a6
    by simp
  from r v hh show ?thesis by blast
qed

text \<open>
  C9 as stated fails for H: the components are not bounded by the program, and on the
  finite components (\<open>2 ^ 1023\<close>, 0, \<open>2 ^ 1023\<close>, 0), which \<open>setState\<close> stores as they
  are, the sum in the first H overflows, so that two applications of H leave an infinity
  in both real parts.
\<close>

theorem gate_algebra_counterexample:
  "measured (heap ex_world10 (state ex_q3)) = 2
   \<and> amps (heap ex_world10 (state ex_q3)) = (Fin (2 ^ 1023), Fin 0, Fin (2 ^ 1023), Fin 0)
   \<and> amps (heap (snd (applyGate ex_q3 (CHR ''H'') 109
                      (snd (applyGate ex_q3 (CHR ''H'') 108 ex_world10)))) (state ex_q3))
       = (PInf, Fin 0, PInf, Fin 0)"
proof -
  have m: "measured (heap ex_world10 (state ex_q3)) = 2"
    by (simp add: exs ops ev)
  have a: "amps (heap ex_world10 (state ex_q3)) = (Fin (2 ^ 1023), Fin 0, Fin (2 ^ 1023), Fin 0)"
    by (simp add: exs ops ev amps_def)
  have "amps (heap (snd (applyGate ex_q3 (CHR ''H'') 109
                      (snd (applyGate ex_q3 (CHR ''H'') 108 ex_world10)))) (state ex_q3))
       = (PInf, Fin 0, PInf, Fin 0)"
    unfolding applyGate_H_twice [OF m a] hadamard_overflow hadamard_basis by (rule refl)
  with m a show ?thesis by blast
qed

section \<open>Unrecognised gate symbols\<close>

text \<open>
  C5, as the code has it. For a symbol other than H, X and Z: on a superposed register
  \<open>applyGate\<close> writes the line \<open>Unknown gate:\<close> with the symbol to the error stream and
  leaves amplitudes, \<open>measured\<close>, link table, link count and owner tag as they were, but
  sets \<open>created_at\<close> to the clock's reading and \<open>decohere_timeout_ms\<close> to the instance's
  timeout, as for every gate; no other segment is written. On a collapsed register it
  returns before the symbol is looked at: nothing is written to the error stream and the
  store is unchanged.
\<close>

theorem applyGate_unknown:
  assumes "gate \<noteq> CHR ''H''" "gate \<noteq> CHR ''X''" "gate \<noteq> CHR ''Z''"
  shows "(measured (heap w (state q)) = 2 \<longrightarrow>
            fst (applyGate q gate now w) = [''Unknown gate: '' @ [gate]]
            \<and> heap (snd (applyGate q gate now w)) (state q)
                = (heap w (state q))\<lparr>created_at := now,
                                       decohere_timeout_ms := decohere_timeout q\<rparr>
            \<and> (\<forall>a. a \<noteq> state q \<longrightarrow> heap (snd (applyGate q gate now w)) a = heap w a)
            \<and> names (snd (applyGate q gate now w)) = names w)
       \<and> (measured (heap w (state q)) \<noteq> 2 \<longrightarrow> applyGate q gate now w = ([], w))"
  using assms
  by (simp add: applyGate_def Let_def heap_on_state frame_on_state updateTimestamp_def)

theorem applyGate_unknown_witness:
  "measured (heap ex_world4 (state ex_q3)) = 2
   \<and> fst (applyGate ex_q3 (CHR ''Q'') 200 ex_world4) = [''Unknown gate: Q'']
   \<and> amps (heap (snd (applyGate ex_q3 (CHR ''Q'') 200 ex_world4)) (state ex_q3))
       = (to_double (3 / 5), Fin 0, to_double (4 / 5), Fin 0)
   \<and> measured (heap (snd (applyGate ex_q3 (CHR ''Q'') 200 ex_world4)) (state ex_q3)) = 2
   \<and> created_at (heap (snd (applyGate ex_q3 (CHR ''Q'') 200 ex_world4)) (state ex_q3)) = 200
   \<and> measured (heap ex_world2 (state ex_q1)) \<noteq> 2
   \<and> applyGate ex_q1 (CHR ''Q'') 200 ex_world2 = ([], ex_world2)"
  using applyGate_unknown [of "CHR ''Q''" ex_world4 ex_q3 200]
    applyGate_unknown [of "CHR ''Q''" ex_world2 ex_q1 200]
  by (simp add: ex_states ex4_seg2 ex4_seg2_fields ex2_seg0 amps_def)

text \<open>
  C5 as stated fails: an unrecognised symbol on a superposed register moves
  \<open>created_at\<close>, and on a collapsed register nothing is reported.
\<close>

theorem applyGate_unknown_counterexample:
  "measured (heap ex_world4 (state ex_q3)) = 2
   \<and> created_at (heap (snd (applyGate ex_q3 (CHR ''Q'') 200 ex_world4)) (state ex_q3))
       \<noteq> created_at (heap ex_world4 (state ex_q3))
   \<and> measured (heap ex_world2 (state ex_q1)) \<noteq> 2
   \<and> fst (applyGate ex_q1 (CHR ''Q'') 200 ex_world2) = []"
  by (simp add: ex_states ex4_seg2 ex2_seg0 applyGate_def Let_def heap_on_state updateTimestamp_def)

section \<open>The decoherence round against measurement\<close>

text \<open>
  C3. The third register of the example store is superposed with amplitudes 0.6 and 0.8
  (the binary64 values next to 3/5 and 4/5), was stamped at 104 and has a timeout of 5000.
  At clock reading 6000 and with the variate 1/2 a round of the decoherence thread fires
  and sets \<open>measured\<close> to 1, but leaves the amplitudes and \<open>created_at\<close> as they were;
  \<open>measure\<close> with the same variate and reading stores the amplitudes (0,0) and (1,0) and
  the stamp 6000.
\<close>

theorem decohere_tick_not_measure:
  "measured (heap ex_world4 (state ex_q3)) = 2
   \<and> decohere_timeout_ms (heap ex_world4 (state ex_q3))
       < 6000 - created_at (heap ex_world4 (state ex_q3))
   \<and> measured (heap (decohere_tick ex_q3 (1 / 2) 6000 ex_world4) (state ex_q3)) = 1
   \<and> amps (heap (decohere_tick ex_q3 (1 / 2) 6000 ex_world4) (state ex_q3))
       = (to_double (3 / 5), Fin 0, to_double (4 / 5), Fin 0)
   \<and> created_at (heap (decohere_tick ex_q3 (1 / 2) 6000 ex_world4) (state ex_q3)) = 104
   \<and> measured (heap (snd (measure_qubit ex_q3 (1 / 2) 6000 ex_world4)) (state ex_q3)) = 1
   \<and> amps (heap (snd (measure_qubit ex_q3 (1 / 2) 6000 ex_world4)) (state ex_q3))
       = (Fin 0, Fin 0, Fin 1, Fin 0)
   \<and> created_at (heap (snd (measure_qubit ex_q3 (1 / 2) 6000 ex_world4)) (state ex_q3)) = 6000"
proof -
  note b = ex4_seg2_fields
  have d: "measured (heap (decohere_tick ex_q3 (1 / 2) 6000 ex_world4) (state ex_q3)) = 1
   \<and> amps (heap (decohere_tick ex_q3 (1 / 2) 6000 ex_world4) (state ex_q3))
       = (to_double (3 / 5), Fin 0, to_double (4 / 5), Fin 0)
   \<and> created_at (heap (decohere_tick ex_q3 (1 / 2) 6000 ex_world4) (state ex_q3)) = 104"
    using ex_amp_draw
    by (simp add: decohere_tick_def Let_def ex_states ex4_seg2 b norm_q_def
        heap_propagateToLinks heap_on_state amps_def)
  have m: "measured (heap (snd (measure_qubit ex_q3 (1 / 2) 6000 ex_world4)) (state ex_q3)) = 1
   \<and> amps (heap (snd (measure_qubit ex_q3 (1 / 2) 6000 ex_world4)) (state ex_q3))
       = (Fin 0, Fin 0, Fin 1, Fin 0)
   \<and> created_at (heap (snd (measure_qubit ex_q3 (1 / 2) 6000 ex_world4)) (state ex_q3)) = 6000"
    using ex_amp_draw
    by (simp add: measure_qubit_def Let_def ex_states ex4_seg2 b norm_q_def
        heap_propagateToLinks heap_on_state amps_def updateTimestamp_def)
  show ?thesis
    using d m by (simp add: ex_states ex4_seg2)
qed

section \<open>Collapsed records and their amplitudes\<close>

text \<open>
  C1, as the code has it. Call a record well-collapsed when it is superposed, or collapsed
  to 0 with amplitudes (1,0) and (0,0), or collapsed to 1 with amplitudes (0,0) and (1,0).
  A well-collapsed record of any segment stays well-collapsed under \<open>applyGate\<close>,
  \<open>entangle\<close>, \<open>setState\<close> and \<open>initSuperposition\<close> of any register, and under \<open>measure\<close> of
  a register when the record is that register's own or is not among the segments the
  measurement notifies. A notified peer keeps its amplitudes: only its \<open>measured\<close> byte is
  written.
\<close>

theorem collapse_invariant_local:
  assumes "collapsed_amps (heap w a)"
  shows "collapsed_amps (heap (snd (applyGate q g now w)) a)
   \<and> collapsed_amps (heap (entangle q peers w) a)
   \<and> collapsed_amps (heap (setState q ar ai br bi now w) a)
   \<and> collapsed_amps (heap (initSuperposition q now w) a)
   \<and> (a = state q \<or> a \<notin> set (notified q w) \<longrightarrow>
        collapsed_amps (heap (snd (measure_qubit q u now w)) a))
   \<and> (a \<noteq> state q \<longrightarrow>
        amps (heap (snd (measure_qubit q u now w)) a) = amps (heap w a))"
  using assms
  by (simp add: collapsed_amps_applyGate collapsed_amps_entangle collapsed_amps_setState
      collapsed_amps_initSuperposition collapsed_amps_measure amps_measure_other)

theorem collapse_invariant_local_witness:
  "collapsed_amps (heap ex_world7 0) \<and> measured (heap ex_world7 0) = 1
   \<and> collapsed_amps (heap (snd (applyGate ex_q1 (CHR ''H'') 110 ex_world7)) 0)
   \<and> collapsed_amps (heap (entangle ex_q1 [''bell_qubit3''] ex_world7) 0)
   \<and> collapsed_amps (heap (setState ex_q1 (Fin 1) (Fin 0) (Fin 0) (Fin 0) 110 ex_world7) 0)
   \<and> collapsed_amps (heap (initSuperposition ex_q1 110 ex_world7) 0)
   \<and> collapsed_amps (heap (snd (measure_qubit ex_q1 (3 / 4) 110 ex_world7)) 0)
   \<and> collapsed_amps (heap ex_world4 1)
   \<and> amps (heap (snd (measure_qubit ex_q1 (1 / 4) 105 ex_world4)) 1) = amps (heap ex_world4 1)"
proof -
  have h7: "collapsed_amps (heap ex_world7 0)"
    by (simp add: collapsed_amps_def ex7_seg0)
  have h4: "collapsed_amps (heap ex_world4 1)"
    by (simp add: collapsed_amps_def ex4_seg1)
  show ?thesis
    using collapse_invariant_local [OF h7, of ex_q1 "CHR ''H''" 110 "[''bell_qubit3'']" "Fin 1"
        "Fin 0" "Fin 0" "Fin 0" "3 / 4"]
      collapse_invariant_local [OF h4, of ex_q1 "CHR ''H''" 105 "[''bell_qubit3'']" "Fin 1"
        "Fin 0" "Fin 0" "Fin 0" "1 / 4"]
      h7 h4
    by (simp add: ex_states ex7_seg0)
qed

text \<open>
  C1 as stated fails in a store built by the constructor, \<open>formGHZGroup\<close>, \<open>setState\<close> and
  \<open>entangle\<close>: all three records are well-collapsed (they are superposed); after the first
  register is measured, the second is collapsed to 1 with both amplitudes still
  \<^verbatim>\<open>1.0 / M_SQRT2\<close>.
  The record of a register that has just been constructed is not well-collapsed either:
  it is zero-filled, so collapsed to 0 with both amplitudes 0.
\<close>

theorem collapse_invariant_counterexample:
  "collapsed_amps (heap ex_world4 0) \<and> collapsed_amps (heap ex_world4 1)
   \<and> collapsed_amps (heap ex_world4 2)
   \<and> measured (heap (snd (measure_qubit ex_q1 (1 / 4) 105 ex_world4)) 1) = 1
   \<and> amps (heap (snd (measure_qubit ex_q1 (1 / 4) 105 ex_world4)) 1)
       = (ddiv (Fin 1) M_SQRT2, Fin 0, ddiv (Fin 1) M_SQRT2, Fin 0)
   \<and> \<not> collapsed_amps (heap (snd (measure_qubit ex_q1 (1 / 4) 105 ex_world4)) 1)
   \<and> fst (Qubit_new ''bell_qubit1'' 1 5000 100 ex_world0) = Some ex_q1
   \<and> measured (heap ex_world1 (state ex_q1)) = 0
   \<and> amps (heap ex_world1 (state ex_q1)) = (Fin 0, Fin 0, Fin 0, Fin 0)
   \<and> \<not> collapsed_amps (heap ex_world1 (state ex_q1))"
proof -
  have a: "collapsed_amps (heap ex_world4 0) \<and> collapsed_amps (heap ex_world4 1)
   \<and> collapsed_amps (heap ex_world4 2)
   \<and> measured (heap (snd (measure_qubit ex_q1 (1 / 4) 105 ex_world4)) 1) = 1
   \<and> amps (heap (snd (measure_qubit ex_q1 (1 / 4) 105 ex_world4)) 1)
       = (ddiv (Fin 1) M_SQRT2, Fin 0, ddiv (Fin 1) M_SQRT2, Fin 0)
   \<and> \<not> collapsed_amps (heap (snd (measure_qubit ex_q1 (1 / 4) 105 ex_world4)) 1)"
    using ex7_seg1
    by (simp add: collapsed_amps_def ex4_seg0 ex4_seg1 ex4_seg2 ex_world7_def)
  have b: "fst (Qubit_new ''bell_qubit1'' 1 5000 100 ex_world0) = Some ex_q1"
    by (simp add: exs ops ev)
  have c: "measured (heap ex_world1 (state ex_q1)) = 0
   \<and> amps (heap ex_world1 (state ex_q1)) = (Fin 0, Fin 0, Fin 0, Fin 0)"
    by (simp add: exs ops ev amps_def)
  then have d: "\<not> collapsed_amps (heap ex_world1 (state ex_q1))"
    by (simp add: collapsed_amps_def)
  from a b c d show ?thesis by blast
qed

section \<open>The link table\<close>




end
